theory Spec2Isabelle
  imports Main
begin

section \<open>Data model of main.go\<close>

text \<open>
  A Go \<^verbatim>\<open>string\<close> is a sequence of bytes, and so is a HOL \<^typ>\<open>string\<close>
  (a \<^typ>\<open>char\<close> is one byte). The numeric value of a byte is \<open>byte c\<close>.
\<close>

definition byte :: "char \<Rightarrow> nat" where
  "byte c = of_char c"

text \<open>
  The structs of the service. Every field of \<^verbatim>\<open>Currency\<close> and \<^verbatim>\<open>MarketTicker\<close> is a
  Go string. The two structs share field names; those of \<^verbatim>\<open>MarketTicker\<close> carry the
  prefix \<open>ticker_\<close> here.
\<close>

record Currency =
  ID :: string
  FullName :: string
  Ask :: string
  Bid :: string
  Last :: string
  Open :: string
  Low :: string
  High :: string
  FeeCurrency :: string
  Volume :: string
  QuoteVolume :: string
  Change :: string
  PercentChage :: string

text \<open>
  A Go slice is \<^verbatim>\<open>nil\<close> (\<open>None\<close>) or holds a list of elements. \<^verbatim>\<open>append\<close> on
  a nil slice allocates, so its result is never nil.
\<close>

type_synonym 'a slice = "'a list option"

definition append_slice :: "'a slice \<Rightarrow> 'a \<Rightarrow> 'a slice" where
  "append_slice s x = (case s of None \<Rightarrow> Some [x] | Some xs \<Rightarrow> Some (xs @ [x]))"

record CurrencyData =
  Currencies :: "Currency slice"

record MarketTicker =
  ticker_Ask :: string
  ticker_Bid :: string
  ticker_Last :: string
  ticker_Open :: string
  ticker_Low :: string
  ticker_High :: string
  ticker_Volume :: string

text \<open>
  \<^verbatim>\<open>map[string]MarketTicker\<close>: a finite map. Reading a key that is absent gives the zero
  value of the element type, a ticker of empty strings (\<open>index\<close>); the two-result form
  \<^verbatim>\<open>_, ok := m[k]\<close> tells whether the key is there.
\<close>

record Markets =
  Markets :: "string \<rightharpoonup> MarketTicker"

definition zero_MarketTicker :: MarketTicker where
  "zero_MarketTicker =
     \<lparr>ticker_Ask = [], ticker_Bid = [], ticker_Last = [], ticker_Open = [],
      ticker_Low = [], ticker_High = [], ticker_Volume = []\<rparr>"

definition index :: "(string \<rightharpoonup> MarketTicker) \<Rightarrow> string \<Rightarrow> MarketTicker" where
  "index m k = (case m k of None \<Rightarrow> zero_MarketTicker | Some t \<Rightarrow> t)"

text \<open>Go errors: the kind of failure and the text that \<^verbatim>\<open>err.Error()\<close> returns.\<close>

datatype error =
    NetworkError string
  | BodyReadError string
  | SyntaxError string
  | UnsupportedTypeError string

fun Error :: "error \<Rightarrow> string" where
  "Error (NetworkError s) = s"
| "Error (BodyReadError s) = s"
| "Error (SyntaxError s) = s"
| "Error (UnsupportedTypeError s) = ''json: unsupported type: '' @ s"

section \<open>The JSON encoder, as \<^verbatim>\<open>json.Marshal\<close> applies to these structs\<close>

text \<open>
  \<^verbatim>\<open>json.Marshal\<close> walks a Go value by reflection. The values it can meet are modelled
  by \<open>go_value\<close>: strings, slices (nil or not), structs (the JSON name of each field
  with its value, in declaration order) and values of a type the encoder refuses
  (channel, complex, function), for which it returns an \<^verbatim>\<open>UnsupportedTypeError\<close>.
\<close>

datatype go_value =
    String string
  | Slice "go_value list option"
  | Struct "(string \<times> go_value) list"
  | Unsupported string

subsection \<open>\<^verbatim>\<open>utf8.DecodeRuneInString\<close>\<close>

definition RuneError :: nat where
  "RuneError = 0xFFFD"

text \<open>
  The tables \<^verbatim>\<open>first\<close> and \<^verbatim>\<open>acceptRanges\<close> of package utf8, for a first byte that
  is not ASCII: the length of the sequence and the range of its second byte; \<open>None\<close>
  is the entry \<^verbatim>\<open>xx\<close> (an invalid first byte).
\<close>

definition acceptRange :: "nat \<Rightarrow> (nat \<times> nat \<times> nat) option" where
  "acceptRange s0 =
     (if s0 < 0xC2 then None
      else if s0 < 0xE0 then Some (2, 0x80, 0xBF)
      else if s0 = 0xE0 then Some (3, 0xA0, 0xBF)
      else if s0 < 0xED then Some (3, 0x80, 0xBF)
      else if s0 = 0xED then Some (3, 0x80, 0x9F)
      else if s0 < 0xF0 then Some (3, 0x80, 0xBF)
      else if s0 = 0xF0 then Some (4, 0x90, 0xBF)
      else if s0 < 0xF4 then Some (4, 0x80, 0xBF)
      else if s0 = 0xF4 then Some (4, 0x80, 0x8F)
      else None)"

text \<open>The result is the rune and the number of bytes it takes.\<close>

fun DecodeRuneInString :: "string \<Rightarrow> nat \<times> nat" where
  "DecodeRuneInString [] = (RuneError, 0)"
| "DecodeRuneInString (c0 # s) =
     (let s0 = byte c0 in
      if s0 < 0x80 then (s0, 1)
      else (case acceptRange s0 of
          None \<Rightarrow> (RuneError, 1)
        | Some (sz, lo, hi) \<Rightarrow>
            if length (c0 # s) < sz then (RuneError, 1)
            else let s1 = byte (s ! 0) in
              if s1 < lo \<or> hi < s1 then (RuneError, 1)
              else if sz \<le> 2 then ((s0 mod 32) * 64 + s1 mod 64, 2)
              else let s2 = byte (s ! 1) in
                if s2 < 0x80 \<or> 0xBF < s2 then (RuneError, 1)
                else if sz \<le> 3
                  then ((s0 mod 16) * 4096 + (s1 mod 64) * 64 + s2 mod 64, 3)
                else let s3 = byte (s ! 2) in
                  if s3 < 0x80 \<or> 0xBF < s3 then (RuneError, 1)
                  else ((s0 mod 8) * 262144 + (s1 mod 64) * 4096
                          + (s2 mod 64) * 64 + s3 mod 64, 4)))"

subsection \<open>\<^verbatim>\<open>appendString\<close> of encoding/json, with \<^verbatim>\<open>escapeHTML\<close> set\<close>

definition hex :: string where
  "hex = ''0123456789abcdef''"

definition backslash :: char where
  "backslash = CHR 0x5C"

definition quote :: char where
  "quote = CHR 0x22"

text \<open>\<^verbatim>\<open>htmlSafeSet\<close>: the ASCII bytes that are copied as they are.\<close>

definition htmlSafeSet :: "nat \<Rightarrow> bool" where
  "htmlSafeSet b \<longleftrightarrow>
     0x20 \<le> b \<and> b < 0x80 \<and> b \<noteq> 0x22 \<and> b \<noteq> 0x26 \<and> b \<noteq> 0x3C \<and> b \<noteq> 0x3E \<and> b \<noteq> 0x5C"

text \<open>
  The \<^verbatim>\<open>switch\<close> on an ASCII byte that is not in \<^verbatim>\<open>htmlSafeSet\<close>, with the short
  escapes for backspace and form feed of the current library (earlier releases write
  \<^verbatim>\<open>\u0008\<close> and \<^verbatim>\<open>\u000c\<close> for them).
\<close>

definition escape_byte :: "char \<Rightarrow> string" where
  "escape_byte c =
     (let b = byte c in
      if b = 0x5C \<or> b = 0x22 then [backslash, c]
      else if b = 0x08 then [backslash, CHR ''b'']
      else if b = 0x0C then [backslash, CHR ''f'']
      else if b = 0x0A then [backslash, CHR ''n'']
      else if b = 0x0D then [backslash, CHR ''r'']
      else if b = 0x09 then [backslash, CHR ''t'']
      else [backslash, CHR ''u'', CHR ''0'', CHR ''0'', hex ! (b div 16), hex ! (b mod 16)])"

text \<open>
  The loop of \<^verbatim>\<open>appendString\<close> over the source bytes: what it appends between the two
  quotes. The Go code copies runs of unchanged bytes at once (\<^verbatim>\<open>src[start:i]\<close>); the
  model copies them one step at a time.

  What is written for a byte that is not valid UTF-8 depends on the toolchain. The
  encoder modelled here (the original encoding/json) writes the escape \<^verbatim>\<open>\ufffd\<close>; the
  encoder of recent toolchains writes the three bytes \<open>EF BF BD\<close> of \<open>U+FFFD\<close>
  instead. Either is a character of a JSON string (\<open>replacement_character\<close> below).
  The keys and fields that \<^verbatim>\<open>json.Unmarshal\<close> has decoded are valid UTF-8, so the markets
  of the running service do not reach this branch.
\<close>

function string_body :: "string \<Rightarrow> string" where
  "string_body [] = []"
| "string_body (c # src) =
     (if byte c < 0x80 then
        (if htmlSafeSet (byte c) then c # string_body src
         else escape_byte c @ string_body src)
      else
        (case DecodeRuneInString (take 4 (c # src)) of (r, width) \<Rightarrow>
           if r = RuneError \<and> width = 1
             then backslash # ''ufffd'' @ string_body (drop width (c # src))
           else if r = 0x2028 \<or> r = 0x2029
             then backslash # ''u202'' @ [hex ! (r mod 16)] @ string_body (drop width (c # src))
           else take width (c # src) @ string_body (drop width (c # src))))"
  by pat_completeness auto
termination
proof (relation "measure length", goal_cases)
  case 1
  show ?case by simp
next
  case (2 c src)
  show ?case by simp
next
  case (3 c src)
  show ?case by simp
next
  case (4 c src r width)
  from \<open>(r, width) = DecodeRuneInString (take 4 (c # src))\<close>
  have "0 < width" by (auto simp: Let_def split: option.splits if_splits)
  then show ?case by simp
next
  case (5 c src r width)
  from \<open>(r, width) = DecodeRuneInString (take 4 (c # src))\<close>
  have "0 < width" by (auto simp: Let_def split: option.splits if_splits)
  then show ?case by simp
next
  case (6 c src r width)
  from \<open>(r, width) = DecodeRuneInString (take 4 (c # src))\<close>
  have "0 < width" by (auto simp: Let_def split: option.splits if_splits)
  then show ?case by simp
qed

definition appendString :: "string \<Rightarrow> string" where
  "appendString src = quote # string_body src @ [quote]"

subsection \<open>The encoder\<close>

text \<open>
  A nil slice encodes as \<^verbatim>\<open>null\<close>, any other slice as a JSON array, a struct as a
  JSON object with its fields in declaration order. The first error ends the encoding.
  A field name is written by the encoder as a quoted, HTML-escaped string, which for
  the names of this program is the name between quotes, as \<open>appendString\<close> gives.
\<close>

fun json_Marshal :: "go_value \<Rightarrow> error + string"
  and marshal_elems :: "go_value list \<Rightarrow> error + string"
  and marshal_fields :: "(string \<times> go_value) list \<Rightarrow> error + string" where
  "json_Marshal (String s) = Inr (appendString s)"
| "json_Marshal (Slice None) = Inr ''null''"
| "json_Marshal (Slice (Some vs)) =
     (case marshal_elems vs of Inl err \<Rightarrow> Inl err | Inr js \<Rightarrow> Inr (''['' @ js @ '']''))"
| "json_Marshal (Struct fs) =
     (case marshal_fields fs of Inl err \<Rightarrow> Inl err | Inr js \<Rightarrow> Inr (''{'' @ js @ ''}''))"
| "json_Marshal (Unsupported t) = Inl (UnsupportedTypeError t)"
| "marshal_elems [] = Inr []"
| "marshal_elems [v] = json_Marshal v"
| "marshal_elems (v # v' # vs) =
     (case json_Marshal v of Inl err \<Rightarrow> Inl err
      | Inr js \<Rightarrow>
         (case marshal_elems (v' # vs) of Inl err \<Rightarrow> Inl err
          | Inr rest \<Rightarrow> Inr (js @ '','' @ rest)))"
| "marshal_fields [] = Inr []"
| "marshal_fields [(name, v)] =
     (case json_Marshal v of Inl err \<Rightarrow> Inl err
      | Inr js \<Rightarrow> Inr (appendString name @ '':'' @ js))"
| "marshal_fields ((name, v) # f # fs) =
     (case json_Marshal v of Inl err \<Rightarrow> Inl err
      | Inr js \<Rightarrow>
         (case marshal_fields (f # fs) of Inl err \<Rightarrow> Inl err
          | Inr rest \<Rightarrow> Inr (appendString name @ '':'' @ js @ '','' @ rest)))"

text \<open>The values that reflection finds in the two output structs.\<close>

definition Currency_value :: "Currency \<Rightarrow> go_value" where
  "Currency_value c = Struct
     [(''id'', String (ID c)), (''fullName'', String (FullName c)),
      (''ask'', String (Ask c)), (''bid'', String (Bid c)),
      (''last'', String (Last c)), (''open'', String (Open c)),
      (''low'', String (Low c)), (''high'', String (High c)),
      (''feeCurrency'', String (FeeCurrency c)), (''volume'', String (Volume c)),
      (''quoteVolume'', String (QuoteVolume c)), (''change'', String (Change c)),
      (''percentChange'', String (PercentChage c))]"

definition CurrencyData_value :: "CurrencyData \<Rightarrow> go_value" where
  "CurrencyData_value d =
     Struct [(''currencies'', Slice (map_option (map Currency_value) (Currencies d)))]"

section \<open>net/http: response writer and request\<close>

text \<open>
  What a handler leaves in its \<^verbatim>\<open>http.ResponseWriter\<close>: the header map, the status
  code (\<open>None\<close> until the header is written) and the bytes of the body.
  \<^verbatim>\<open>Write\<close> sends status 200 first when no status has been written yet.
\<close>

record ResponseWriter =
  Header :: "string \<rightharpoonup> string list"
  StatusCode :: "nat option"
  Body :: string

definition new_ResponseWriter :: ResponseWriter where
  "new_ResponseWriter = \<lparr>Header = Map.empty, StatusCode = None, Body = []\<rparr>"

definition Header_Set :: "string \<Rightarrow> string \<Rightarrow> ResponseWriter \<Rightarrow> ResponseWriter" where
  "Header_Set key v w = w\<lparr>Header := (Header w)(key \<mapsto> [v])\<rparr>"

definition Header_Del :: "string \<Rightarrow> ResponseWriter \<Rightarrow> ResponseWriter" where
  "Header_Del key w = w\<lparr>Header := (Header w)(key := None)\<rparr>"

definition WriteHeader :: "nat \<Rightarrow> ResponseWriter \<Rightarrow> ResponseWriter" where
  "WriteHeader code w = (if StatusCode w = None then w\<lparr>StatusCode := Some code\<rparr> else w)"

definition StatusOK :: nat where
  "StatusOK = 200"

definition StatusBadRequest :: nat where
  "StatusBadRequest = 400"

definition StatusInternalServerError :: nat where
  "StatusInternalServerError = 500"

definition Write :: "string \<Rightarrow> ResponseWriter \<Rightarrow> ResponseWriter" where
  "Write bs w = (let w' = WriteHeader StatusOK w in w'\<lparr>Body := Body w' @ bs\<rparr>)"

text \<open>
  \<^verbatim>\<open>http.Error\<close>: a plain-text reply with the given status; the body is the message
  and a newline (\<^verbatim>\<open>fmt.Fprintln\<close>).
\<close>

definition http_Error :: "ResponseWriter \<Rightarrow> string \<Rightarrow> nat \<Rightarrow> ResponseWriter" where
  "http_Error w msg code =
     Write (msg @ [CHR 0x0A])
       (WriteHeader code
         (Header_Set ''X-Content-Type-Options'' ''nosniff''
           (Header_Set ''Content-Type'' ''text/plain; charset=utf-8''
             (Header_Del ''Content-Length'' w))))"

text \<open>
  \<^verbatim>\<open>url.Values\<close> is \<^verbatim>\<open>map[string][]string\<close>. \<^verbatim>\<open>Get\<close> gives the first value of a key,
  or the empty string; \<^verbatim>\<open>Set\<close> replaces the values of a key in the map it is called on.
\<close>

type_synonym Values = "string \<rightharpoonup> string list"

definition Values_Get :: "Values \<Rightarrow> string \<Rightarrow> string" where
  "Values_Get v key = (case v key of None \<Rightarrow> [] | Some [] \<Rightarrow> [] | Some (x # _) \<Rightarrow> x)"

definition Values_Set :: "Values \<Rightarrow> string \<Rightarrow> string \<Rightarrow> Values" where
  "Values_Set v key val = v(key \<mapsto> [val])"

text \<open>
  Of a request the handlers read the path and the query of its URL. \<open>Query u\<close> is
  what the method \<^verbatim>\<open>u.Query()\<close> returns: the parameters parsed from the raw query
  string of \<open>u\<close>. Every call parses anew and returns a map of its own, so a change
  made to that map is not a change of the request.
\<close>

record URL =
  Path :: string
  Query :: Values

record Request =
  Method :: string
  URL :: URL

section \<open>The query handlers\<close>

text \<open>
  \<^verbatim>\<open>CurrencyHandler\<close>, lines 59 to 67: the symbol is the query parameter
  \<^verbatim>\<open>symbol\<close>; the result is the error reply, or the symbol that passed both checks.
  This part reads the shared \<^verbatim>\<open>markets\<close> once (line 64).
\<close>

definition CurrencyHandler_validate ::
  "Markets \<Rightarrow> ResponseWriter \<Rightarrow> Request \<Rightarrow> ResponseWriter + string" where
  "CurrencyHandler_validate markets w r =
     (let symbol = Values_Get (Query (URL r)) ''symbol'' in
      if symbol = [] then Inl (http_Error w ''No symbol specified'' StatusBadRequest)
      else if Markets markets symbol = None
        then Inl (http_Error w ''Invalid symbol specified'' StatusBadRequest)
      else Inr symbol)"

text \<open>
  \<^verbatim>\<open>CurrencyHandler\<close>, lines 70 to 92: a second read of the shared \<^verbatim>\<open>markets\<close>
  (line 70), the output record, its encoding and the reply.
\<close>

definition CurrencyHandler_respond ::
  "Markets \<Rightarrow> ResponseWriter \<Rightarrow> string \<Rightarrow> ResponseWriter" where
  "CurrencyHandler_respond markets w symbol =
     (let marketTicker = index (Markets markets) symbol;
          currency = \<lparr>ID = symbol, FullName = symbol,
            Ask = ticker_Ask marketTicker, Bid = ticker_Bid marketTicker,
            Last = ticker_Last marketTicker, Open = ticker_Open marketTicker,
            Low = ticker_Low marketTicker, High = ticker_High marketTicker,
            FeeCurrency = ''BTC'', Volume = [], QuoteVolume = [], Change = [],
            PercentChage = []\<rparr>
      in case json_Marshal (Currency_value currency) of
           Inl err \<Rightarrow> http_Error w (Error err) StatusInternalServerError
         | Inr js \<Rightarrow> Write js (Header_Set ''Content-Type'' ''application/json'' w))"

text \<open>The handler when nothing else writes \<^verbatim>\<open>markets\<close> while it runs.\<close>

definition CurrencyHandler :: "Markets \<Rightarrow> ResponseWriter \<Rightarrow> Request \<Rightarrow> ResponseWriter" where
  "CurrencyHandler markets w r =
     (case CurrencyHandler_validate markets w r of
        Inl w' \<Rightarrow> w'
      | Inr symbol \<Rightarrow> CurrencyHandler_respond markets w symbol)"

text \<open>
  The handler when the refresher's assignment (line 212) falls between its two reads
  of \<^verbatim>\<open>markets\<close>: the checks see the old mapping, the lookup sees the new one.
\<close>

definition CurrencyHandler_across_refresh ::
  "Markets \<Rightarrow> Markets \<Rightarrow> ResponseWriter \<Rightarrow> Request \<Rightarrow> ResponseWriter" where
  "CurrencyHandler_across_refresh old new w r =
     (case CurrencyHandler_validate old w r of
        Inl w' \<Rightarrow> w'
      | Inr symbol \<Rightarrow> CurrencyHandler_respond new w symbol)"

text \<open>
  \<^verbatim>\<open>CurrenciesHandler\<close>. Go leaves the order in which \<^verbatim>\<open>range\<close> visits a map open,
  and it may differ from one loop to the next: the order of one run is the argument
  \<open>order\<close>, a list of the keys of the map, each once (\<open>range_order\<close>). The slice
  \<^verbatim>\<open>currencies\<close> starts as nil. An entry of \<open>order\<close> that is no key of the map
  (there is none under \<open>range_order\<close>) is passed over: \<^verbatim>\<open>range\<close> visits entries of the
  map only.
\<close>

definition range_order :: "(string \<rightharpoonup> MarketTicker) \<Rightarrow> string list \<Rightarrow> bool" where
  "range_order m order \<longleftrightarrow> distinct order \<and> set order = dom m"

fun range_loop ::
  "(string \<rightharpoonup> MarketTicker) \<Rightarrow> string list \<Rightarrow> Currency slice \<Rightarrow> Currency slice" where
  "range_loop m [] currencies = currencies"
| "range_loop m (symbol # rest) currencies =
     (case m symbol of
        None \<Rightarrow> range_loop m rest currencies
      | Some marketTicker \<Rightarrow>
          range_loop m rest
            (append_slice currencies
               \<lparr>ID = symbol, FullName = symbol,
                Ask = ticker_Ask marketTicker, Bid = ticker_Bid marketTicker,
                Last = ticker_Last marketTicker, Open = ticker_Open marketTicker,
                Low = ticker_Low marketTicker, High = ticker_High marketTicker,
                FeeCurrency = ''BTC'', Volume = [], QuoteVolume = [], Change = [],
                PercentChage = []\<rparr>))"

definition CurrenciesHandler ::
  "Markets \<Rightarrow> string list \<Rightarrow> ResponseWriter \<Rightarrow> Request \<Rightarrow> ResponseWriter" where
  "CurrenciesHandler markets order w r =
     (let currencies = range_loop (Markets markets) order None;
          currencyData = \<lparr>Currencies = currencies\<rparr>
      in case json_Marshal (CurrencyData_value currencyData) of
           Inl err \<Rightarrow> http_Error w (Error err) StatusInternalServerError
         | Inr js \<Rightarrow> Write js (Header_Set ''Content-Type'' ''application/json'' w))"

text \<open>
  The handler that \<^verbatim>\<open>main\<close> registers for the pattern \<^verbatim>\<open>/currency/\<close> (lines 251 to
  259). Slicing a path shorter than the prefix panics (\<open>None\<close>). The call
  \<^verbatim>\<open>r.URL.Query().Set("symbol", symbol)\<close> changes the map that \<^verbatim>\<open>Query()\<close> has just
  built, here \<open>updated\<close>, which nothing reads afterwards; the request \<open>r\<close> goes to
  \<^verbatim>\<open>CurrencyHandler\<close> as it came.
\<close>

definition main_currency_handler ::
  "Markets \<Rightarrow> string list \<Rightarrow> ResponseWriter \<Rightarrow> Request \<Rightarrow> ResponseWriter option" where
  "main_currency_handler markets order w r =
     (if length (Path (URL r)) < length ''/currency/'' then None
      else let symbol = drop (length ''/currency/'') (Path (URL r)) in
        if symbol \<noteq> ''all''
          then (let updated = Values_Set (Query (URL r)) ''symbol'' symbol
                in Some (CurrencyHandler markets w r))
        else Some (CurrenciesHandler markets order w r))"

section \<open>Fetching and refreshing\<close>

text \<open>
  The reply of the exchange, as \<^verbatim>\<open>getMarkets\<close> uses it: the status code, and what
  \<^verbatim>\<open>ioutil.ReadAll\<close> gets from the body (an error or the bytes).
\<close>

record Response =
  Response_StatusCode :: nat
  Response_Body :: "error + string"

text \<open>
  \<^verbatim>\<open>getMarkets\<close>. Its surroundings are arguments: \<open>http_Get\<close> is the outcome of
  \<^verbatim>\<open>http.Get(endpoint)\<close>, which is an error only when no HTTP reply was obtained, and
  \<open>json_Unmarshal\<close> is the decoding of a body into \<^verbatim>\<open>map[string]MarketTicker\<close>.
\<close>

definition getMarkets ::
  "(string \<Rightarrow> error + (string \<rightharpoonup> MarketTicker)) \<Rightarrow> string list \<Rightarrow> error + Response
     \<Rightarrow> error + Markets" where
  "getMarkets json_Unmarshal symbols http_Get =
     (case http_Get of
        Inl err \<Rightarrow> Inl err
      | Inr resp \<Rightarrow>
          (case Response_Body resp of
             Inl err \<Rightarrow> Inl err
           | Inr body \<Rightarrow>
               (case json_Unmarshal body of
                  Inl err \<Rightarrow> Inl err
                | Inr marketTickers \<Rightarrow> Inr \<lparr>Markets = marketTickers\<rparr>)))"

text \<open>
  The state that the refresher shares with the handlers, and the log. One tick of the
  loop in \<^verbatim>\<open>updateMarkets\<close> (lines 206 to 213) takes the outcome of the HTTP call
  made at that tick.
\<close>

record State =
  shared :: Markets
  log_lines :: "string list"

definition log_Println :: "string \<Rightarrow> State \<Rightarrow> State" where
  "log_Println msg st = st\<lparr>log_lines := log_lines st @ [msg]\<rparr>"

definition updateMarkets_tick ::
  "(string \<Rightarrow> error + (string \<rightharpoonup> MarketTicker)) \<Rightarrow> string list \<Rightarrow> error + Response
     \<Rightarrow> State \<Rightarrow> State" where
  "updateMarkets_tick json_Unmarshal symbols http_Get st =
     (let st' = log_Println ''Updating markets...'' st in
      case getMarkets json_Unmarshal symbols http_Get of
        Inl err \<Rightarrow> log_Println (''Error updating markets: '' @ Error err) st'
      | Inr newMarkets \<Rightarrow> st'\<lparr>shared := newMarkets\<rparr>)"

section \<open>Well-formed JSON texts\<close>

text \<open>
  The grammar of JSON (ECMA-404, RFC 8259), one predicate for each nonterminal, over
  the bytes of a UTF-8 text. A character of a string that is not written as an escape
  is an ASCII byte from \<open>0x20\<close> on other than the quote and the backslash, or the UTF-8
  encoding of a code point from \<open>U+0080\<close> on (\<open>utf8_multibyte\<close>: two to four bytes,
  no overlong form, no surrogate, at most \<open>U+10FFFF\<close>).
\<close>

definition continuation :: "char \<Rightarrow> bool" where
  "continuation c \<longleftrightarrow> 0x80 \<le> byte c \<and> byte c \<le> 0xBF"

fun utf8_multibyte :: "string \<Rightarrow> bool" where
  "utf8_multibyte [a, b] \<longleftrightarrow> 0xC2 \<le> byte a \<and> byte a \<le> 0xDF \<and> continuation b"
| "utf8_multibyte [a, b, c] \<longleftrightarrow>
     (byte a = 0xE0 \<and> 0xA0 \<le> byte b \<and> byte b \<le> 0xBF
      \<or> 0xE1 \<le> byte a \<and> byte a \<le> 0xEC \<and> continuation b
      \<or> byte a = 0xED \<and> 0x80 \<le> byte b \<and> byte b \<le> 0x9F
      \<or> 0xEE \<le> byte a \<and> byte a \<le> 0xEF \<and> continuation b)
     \<and> continuation c"
| "utf8_multibyte [a, b, c, d] \<longleftrightarrow>
     (byte a = 0xF0 \<and> 0x90 \<le> byte b \<and> byte b \<le> 0xBF
      \<or> 0xF1 \<le> byte a \<and> byte a \<le> 0xF3 \<and> continuation b
      \<or> byte a = 0xF4 \<and> 0x80 \<le> byte b \<and> byte b \<le> 0x8F)
     \<and> continuation c \<and> continuation d"
| "utf8_multibyte _ \<longleftrightarrow> False"

definition json_ws :: "string \<Rightarrow> bool" where
  "json_ws w \<longleftrightarrow> set w \<subseteq> {CHR 0x20, CHR 0x0A, CHR 0x0D, CHR 0x09}"

definition json_hex :: "char \<Rightarrow> bool" where
  "json_hex c \<longleftrightarrow> c \<in> set ''0123456789abcdefABCDEF''"

definition json_digits :: "string \<Rightarrow> bool" where
  "json_digits ds \<longleftrightarrow> ds \<noteq> [] \<and> set ds \<subseteq> set ''0123456789''"

definition json_integer :: "string \<Rightarrow> bool" where
  "json_integer s \<longleftrightarrow>
     (\<exists>ds. (s = ds \<or> s = CHR ''-'' # ds) \<and> json_digits ds
        \<and> (1 < length ds \<longrightarrow> hd ds \<noteq> CHR ''0''))"

definition json_fraction :: "string \<Rightarrow> bool" where
  "json_fraction s \<longleftrightarrow> s = [] \<or> (\<exists>ds. s = CHR ''.'' # ds \<and> json_digits ds)"

definition json_exponent :: "string \<Rightarrow> bool" where
  "json_exponent s \<longleftrightarrow>
     s = [] \<or> (\<exists>e sign ds. s = e # sign @ ds \<and> e \<in> {CHR ''E'', CHR ''e''}
                  \<and> sign \<in> {[], ''+'', ''-''} \<and> json_digits ds)"

definition json_number :: "string \<Rightarrow> bool" where
  "json_number s \<longleftrightarrow>
     (\<exists>i f e. s = i @ f @ e \<and> json_integer i \<and> json_fraction f \<and> json_exponent e)"

inductive json_characters :: "string \<Rightarrow> bool" where
  characters_empty: "json_characters []"
| characters_ascii:
    "0x20 \<le> byte c \<Longrightarrow> byte c < 0x80 \<Longrightarrow> c \<noteq> quote \<Longrightarrow> c \<noteq> backslash
       \<Longrightarrow> json_characters cs \<Longrightarrow> json_characters (c # cs)"
| characters_utf8:
    "utf8_multibyte u \<Longrightarrow> json_characters cs \<Longrightarrow> json_characters (u @ cs)"
| characters_escape:
    "e \<in> {quote, backslash, CHR ''/'', CHR ''b'', CHR ''f'', CHR ''n'', CHR ''r'', CHR ''t''}
       \<Longrightarrow> json_characters cs \<Longrightarrow> json_characters (backslash # e # cs)"
| characters_unicode:
    "json_hex h1 \<Longrightarrow> json_hex h2 \<Longrightarrow> json_hex h3 \<Longrightarrow> json_hex h4
       \<Longrightarrow> json_characters cs
       \<Longrightarrow> json_characters (backslash # CHR ''u'' # h1 # h2 # h3 # h4 # cs)"

definition json_string :: "string \<Rightarrow> bool" where
  "json_string s \<longleftrightarrow> (\<exists>cs. s = quote # cs @ [quote] \<and> json_characters cs)"

inductive json_value :: "string \<Rightarrow> bool"
  and json_element :: "string \<Rightarrow> bool"
  and json_elements :: "string \<Rightarrow> bool"
  and json_member :: "string \<Rightarrow> bool"
  and json_members :: "string \<Rightarrow> bool" where
  value_object_empty: "json_ws w \<Longrightarrow> json_value (''{'' @ w @ ''}'')"
| value_object: "json_members ms \<Longrightarrow> json_value (''{'' @ ms @ ''}'')"
| value_array_empty: "json_ws w \<Longrightarrow> json_value (''['' @ w @ '']'')"
| value_array: "json_elements es \<Longrightarrow> json_value (''['' @ es @ '']'')"
| value_string: "json_string s \<Longrightarrow> json_value s"
| value_number: "json_number n \<Longrightarrow> json_value n"
| value_true: "json_value ''true''"
| value_false: "json_value ''false''"
| value_null: "json_value ''null''"
| element: "json_ws w \<Longrightarrow> json_value v \<Longrightarrow> json_ws w' \<Longrightarrow> json_element (w @ v @ w')"
| elements_one: "json_element e \<Longrightarrow> json_elements e"
| elements_more: "json_element e \<Longrightarrow> json_elements es \<Longrightarrow> json_elements (e @ '','' @ es)"
| member:
    "json_ws w \<Longrightarrow> json_string k \<Longrightarrow> json_ws w' \<Longrightarrow> json_element e
       \<Longrightarrow> json_member (w @ k @ w' @ '':'' @ e)"
| members_one: "json_member m \<Longrightarrow> json_members m"
| members_more: "json_member m \<Longrightarrow> json_members ms \<Longrightarrow> json_members (m @ '','' @ ms)"

text \<open>A JSON text is an element: a value, with whitespace allowed around it.\<close>

definition json_text :: "string \<Rightarrow> bool" where
  "json_text s \<longleftrightarrow> json_element s"

section \<open>Replies on a fresh response writer\<close>

lemma http_Error_new:
  "http_Error new_ResponseWriter msg code =
     \<lparr>Header = [''Content-Type'' \<mapsto> [''text/plain; charset=utf-8''],
                 ''X-Content-Type-Options'' \<mapsto> [''nosniff'']],
      StatusCode = Some code, Body = msg @ [CHR 0x0A]\<rparr>"
  by (simp add: http_Error_def new_ResponseWriter_def Write_def WriteHeader_def
      Header_Set_def Header_Del_def)

lemma json_reply_new:
  "Write js (Header_Set ''Content-Type'' ''application/json'' new_ResponseWriter) =
     \<lparr>Header = [''Content-Type'' \<mapsto> [''application/json'']],
      StatusCode = Some 200, Body = js\<rparr>"
  by (simp add: new_ResponseWriter_def Write_def WriteHeader_def Header_Set_def StatusOK_def)

lemma StatusCode_http_Error_new [simp]:
  "StatusCode (http_Error new_ResponseWriter msg code) = Some code"
  by (simp add: http_Error_new)

section \<open>The encoder writes JSON\<close>

subsection \<open>Bytes and escapes\<close>

lemma byte_inj: "byte c = byte d \<Longrightarrow> c = d"
  unfolding byte_def by simp

lemma byte_quote: "byte c = 0x22 \<longleftrightarrow> c = quote"
  using byte_inj [of c quote] by (auto simp: quote_def byte_def)

lemma byte_backslash: "byte c = 0x5C \<longleftrightarrow> c = backslash"
  using byte_inj [of c backslash] by (auto simp: backslash_def byte_def)

lemma json_hex_nibble: "n < 16 \<Longrightarrow> json_hex (hex ! n)"
proof -
  assume "n < 16"
  then have "n < length hex" by (simp add: hex_def)
  then have "hex ! n \<in> set hex" by (rule nth_mem)
  then show ?thesis by (auto simp: json_hex_def hex_def)
qed

lemma escape_byte_characters:
  assumes "byte c < 0x80" and "json_characters cs"
  shows "json_characters (escape_byte c @ cs)"
proof -
  have d: "json_hex (hex ! (byte c div 16))" and m: "json_hex (hex ! (byte c mod 16))"
    using assms(1) by (auto intro!: json_hex_nibble)
  have z: "json_hex (CHR ''0'')" by (simp add: json_hex_def)
  have esc: "\<And>e. e \<in> {quote, backslash, CHR ''/'', CHR ''b'', CHR ''f'', CHR ''n'', CHR ''r'', CHR ''t''}
      \<Longrightarrow> json_characters (backslash # e # cs)"
    by (rule characters_escape [OF _ assms(2)])
  have uni: "json_characters (backslash # CHR ''u'' # CHR ''0'' # CHR ''0''
      # hex ! (byte c div 16) # hex ! (byte c mod 16) # cs)"
    using z z d m assms(2) by (rule characters_unicode)
  show ?thesis
    using esc uni by (simp add: escape_byte_def Let_def byte_quote byte_backslash)
qed

subsection \<open>What the decoder accepts is well-formed UTF-8\<close>

lemma acceptRange_cases:
  assumes "acceptRange s0 = Some (sz, lo, hi)"
  shows "sz = 2 \<and> lo = 0x80 \<and> hi = 0xBF \<and> 0xC2 \<le> s0 \<and> s0 \<le> 0xDF
       \<or> sz = 3 \<and> lo = 0xA0 \<and> hi = 0xBF \<and> s0 = 0xE0
       \<or> sz = 3 \<and> lo = 0x80 \<and> hi = 0xBF \<and> 0xE1 \<le> s0 \<and> s0 \<le> 0xEC
       \<or> sz = 3 \<and> lo = 0x80 \<and> hi = 0x9F \<and> s0 = 0xED
       \<or> sz = 3 \<and> lo = 0x80 \<and> hi = 0xBF \<and> 0xEE \<le> s0 \<and> s0 \<le> 0xEF
       \<or> sz = 4 \<and> lo = 0x90 \<and> hi = 0xBF \<and> s0 = 0xF0
       \<or> sz = 4 \<and> lo = 0x80 \<and> hi = 0xBF \<and> 0xF1 \<le> s0 \<and> s0 \<le> 0xF3
       \<or> sz = 4 \<and> lo = 0x80 \<and> hi = 0x8F \<and> s0 = 0xF4"
  using assms unfolding acceptRange_def by (simp split: if_splits)

lemma Decode_two:
  assumes "acceptRange (byte c) = Some (2, lo, hi)"
    and "\<not> byte b < lo" and "\<not> hi < byte b"
  shows "utf8_multibyte [c, b]"
  using acceptRange_cases [OF assms(1)] assms(2,3) by (simp add: continuation_def)

lemma Decode_three:
  assumes "acceptRange (byte c) = Some (3, lo, hi)"
    and "\<not> byte b < lo" and "\<not> hi < byte b" and "\<not> byte d < 0x80" and "\<not> 0xBF < byte d"
  shows "utf8_multibyte [c, b, d]"
  using acceptRange_cases [OF assms(1)] assms(2-) by (auto simp add: continuation_def)

lemma Decode_four:
  assumes "acceptRange (byte c) = Some (4, lo, hi)"
    and "\<not> byte b < lo" and "\<not> hi < byte b" and "\<not> byte d < 0x80" and "\<not> 0xBF < byte d"
    and "\<not> byte e < 0x80" and "\<not> 0xBF < byte e"
  shows "utf8_multibyte [c, b, d, e]"
  using acceptRange_cases [OF assms(1)] assms(2-) by (auto simp add: continuation_def)


lemma list_cases3:
  obtains "src = []" | a where "src = [a]" | a b where "src = [a, b]"
    | a b d rest where "src = a # b # d # rest"
  by (metis list.exhaust)

lemma Decode_multibyte:
  assumes na: "\<not> byte c < 0x80"
    and dec: "DecodeRuneInString (take 4 (c # src)) = (r, n)"
    and ne: "\<not> (r = RuneError \<and> n = 1)"
  shows "utf8_multibyte (take n (c # src))"
proof (cases "acceptRange (byte c)")
  case None
  with na dec ne show ?thesis by simp
next
  case (Some t)
  then obtain sz lo hi where ar: "acceptRange (byte c) = Some (sz, lo, hi)"
    by (cases t) auto
  from acceptRange_cases [OF ar] have "sz = 2 \<or> sz = 3 \<or> sz = 4" by auto
  then show ?thesis
  proof (elim disjE)
    assume sz: "sz = 2"
    show ?thesis
    proof (cases src rule: list_cases3)
      case 1
      with na dec ne ar sz show ?thesis by simp
    next
      case (2 a)
      with na dec ne ar sz Decode_two [of c lo hi a] show ?thesis
        by (auto simp: Let_def split: if_splits)
    next
      case (3 a b)
      with na dec ne ar sz Decode_two [of c lo hi a] show ?thesis
        by (auto simp: Let_def split: if_splits)
    next
      case (4 a b d rest)
      with na dec ne ar sz Decode_two [of c lo hi a] show ?thesis
        by (auto simp: Let_def split: if_splits)
    qed
  next
    assume sz: "sz = 3"
    show ?thesis
    proof (cases src rule: list_cases3)
      case 1
      with na dec ne ar sz show ?thesis by simp
    next
      case (2 a)
      with na dec ne ar sz show ?thesis by simp
    next
      case (3 a b)
      with na dec ne ar sz Decode_three [of c lo hi a b] show ?thesis
        by (auto simp: Let_def split: if_splits)
    next
      case (4 a b d rest)
      with na dec ne ar sz Decode_three [of c lo hi a b] show ?thesis
        by (auto simp: Let_def split: if_splits)
    qed
  next
    assume sz: "sz = 4"
    show ?thesis
    proof (cases src rule: list_cases3)
      case 1
      with na dec ne ar sz show ?thesis by simp
    next
      case (2 a)
      with na dec ne ar sz show ?thesis by simp
    next
      case (3 a b)
      with na dec ne ar sz show ?thesis by simp
    next
      case (4 a b d rest)
      with na dec ne ar sz Decode_four [of c lo hi a b d] show ?thesis
        by (auto simp: Let_def split: if_splits)
    qed
  qed
qed

subsection \<open>Strings\<close>

lemma string_body_characters: "json_characters (string_body s)"
proof (induction s rule: string_body.induct)
  case 1
  show ?case by (simp add: characters_empty)
next
  case (2 c src)
  show ?case
  proof (cases "byte c < 0x80")
    case ascii: True
    show ?thesis
    proof (cases "htmlSafeSet (byte c)")
      case True
      with ascii have ih: "json_characters (string_body src)" by (rule "2.IH"(1))
      from True have "0x20 \<le> byte c" "byte c < 0x80" "c \<noteq> quote" "c \<noteq> backslash"
        by (auto simp: htmlSafeSet_def byte_quote [symmetric] byte_backslash [symmetric])
      then have "json_characters (c # string_body src)"
        using ih by (rule characters_ascii)
      with ascii True show ?thesis by simp
    next
      case False
      with ascii have ih: "json_characters (string_body src)" by (rule "2.IH"(2))
      from ascii ih have "json_characters (escape_byte c @ string_body src)"
        by (rule escape_byte_characters)
      with ascii False show ?thesis by simp
    qed
  next
    case multi: False
    obtain r n where dec: "DecodeRuneInString (take 4 (c # src)) = (r, n)"
      by (cases "DecodeRuneInString (take 4 (c # src))")
    have f: "json_hex (CHR ''f'')" and d: "json_hex (CHR ''d'')"
      and two: "json_hex (CHR ''2'')" and zero: "json_hex (CHR ''0'')"
      by (simp_all add: json_hex_def)
    have eq: "string_body (c # src) =
        (if r = RuneError \<and> n = 1
           then backslash # ''ufffd'' @ string_body (drop n (c # src))
         else if r = 0x2028 \<or> r = 0x2029
           then backslash # ''u202'' @ [hex ! (r mod 16)] @ string_body (drop n (c # src))
         else take n (c # src) @ string_body (drop n (c # src)))"
      using multi dec by (simp del: DecodeRuneInString.simps)
    show ?thesis
    proof (cases "r = RuneError \<and> n = 1")
      case True
      with multi dec have ih: "json_characters (string_body (drop n (c # src)))"
        using "2.IH"(3) [OF multi dec [symmetric]] by simp
      have "json_characters (backslash # CHR ''u'' # CHR ''f'' # CHR ''f'' # CHR ''f'' # CHR ''d''
          # string_body (drop n (c # src)))"
        using f f f d ih by (rule characters_unicode)
      with True show ?thesis unfolding eq by simp
    next
      case notError: False
      show ?thesis
      proof (cases "r = 0x2028 \<or> r = 0x2029")
        case True
        with multi dec notError have ih: "json_characters (string_body (drop n (c # src)))"
          using "2.IH"(4) [OF multi dec [symmetric]] by simp
        have "json_hex (hex ! (r mod 16))" by (rule json_hex_nibble) simp
        with two zero have "json_characters (backslash # CHR ''u'' # CHR ''2'' # CHR ''0'' # CHR ''2''
            # hex ! (r mod 16) # string_body (drop n (c # src)))"
          using ih by (intro characters_unicode)
        with notError True show ?thesis unfolding eq by auto
      next
        case False
        with multi dec notError have ih: "json_characters (string_body (drop n (c # src)))"
          using "2.IH"(5) [OF multi dec [symmetric]] by simp
        from multi dec notError have "utf8_multibyte (take n (c # src))"
          by (rule Decode_multibyte)
        then have "json_characters (take n (c # src) @ string_body (drop n (c # src)))"
          using ih by (rule characters_utf8)
        with notError False show ?thesis unfolding eq by auto
      qed
    qed
  qed
qed

lemma replacement_character:
  assumes "json_characters cs"
  shows "json_characters ([CHR 0xEF, CHR 0xBF, CHR 0xBD] @ cs)"
    and "json_characters (backslash # ''ufffd'' @ cs)"
proof -
  have "utf8_multibyte [CHR 0xEF, CHR 0xBF, CHR 0xBD]"
    by (simp add: byte_def continuation_def)
  then show "json_characters ([CHR 0xEF, CHR 0xBF, CHR 0xBD] @ cs)"
    using assms by (rule characters_utf8)
  have f: "json_hex (CHR ''f'')" and d: "json_hex (CHR ''d'')"
    by (simp_all add: json_hex_def)
  from f f f d assms show "json_characters (backslash # ''ufffd'' @ cs)"
    by (simp add: characters_unicode)
qed

lemma appendString_string: "json_string (appendString s)"
  unfolding json_string_def appendString_def using string_body_characters by blast

subsection \<open>Values\<close>

lemma json_ws_Nil: "json_ws []"
  by (simp add: json_ws_def)

lemma value_element: "json_value v \<Longrightarrow> json_element v"
  using element [OF json_ws_Nil _ json_ws_Nil] by simp

lemma field_member:
  assumes "json_value js"
  shows "json_member (appendString name @ '':'' @ js)"
  using member [OF json_ws_Nil appendString_string json_ws_Nil value_element [OF assms]]
  by simp

lemma Marshal_well_formed:
  "json_Marshal v = Inr js \<Longrightarrow> json_value js"
  "marshal_elems vs = Inr js \<Longrightarrow> vs = [] \<and> js = [] \<or> json_elements js"
  "marshal_fields fs = Inr js \<Longrightarrow> fs = [] \<and> js = [] \<or> json_members js"
proof (induction v and vs and fs arbitrary: js and js and js
    rule: json_Marshal_marshal_elems_marshal_fields.induct)
  case (1 s)
  then show ?case by (auto intro: value_string appendString_string)
next
  case 2
  then show ?case by (auto intro: value_null)
next
  case (3 vs)
  from "3.prems" obtain es where es: "marshal_elems vs = Inr es" and js: "js = ''['' @ es @ '']''"
    by (auto split: sum.splits)
  from "3.IH" [OF es] show ?case
  proof
    assume "vs = [] \<and> es = []"
    then show ?thesis unfolding js using value_array_empty [OF json_ws_Nil] by simp
  next
    assume "json_elements es"
    then show ?thesis unfolding js by (rule value_array)
  qed
next
  case (4 fs)
  from "4.prems" obtain ms where ms: "marshal_fields fs = Inr ms" and js: "js = ''{'' @ ms @ ''}''"
    by (auto split: sum.splits)
  from "4.IH" [OF ms] show ?case
  proof
    assume "fs = [] \<and> ms = []"
    then show ?thesis unfolding js using value_object_empty [OF json_ws_Nil] by simp
  next
    assume "json_members ms"
    then show ?thesis unfolding js by (rule value_object)
  qed
next
  case (5 t)
  then show ?case by simp
next
  case 6
  then show ?case by simp
next
  case (7 v)
  then have "json_value js" by simp
  then show ?case by (auto intro: elements_one value_element)
next
  case (8 v v' vs)
  from "8.prems" obtain e rest where e: "json_Marshal v = Inr e"
    and rest: "marshal_elems (v' # vs) = Inr rest" and js: "js = e @ '','' @ rest"
    by (auto split: sum.splits)
  from "8.IH"(1) [OF e] have "json_element e" by (rule value_element)
  moreover from "8.IH"(2) [OF e rest] have "json_elements rest" by simp
  ultimately have "json_elements (e @ '','' @ rest)" by (rule elements_more)
  then show ?case unfolding js by simp
next
  case 9
  then show ?case by simp
next
  case (10 name v)
  from "10.prems" obtain e where e: "json_Marshal v = Inr e"
    and js: "js = appendString name @ '':'' @ e"
    by (auto split: sum.splits)
  from "10.IH" [OF e] have "json_member js" unfolding js by (rule field_member)
  then show ?case by (auto intro: members_one)
next
  case (11 name v f fs)
  from "11.prems" obtain e rest where e: "json_Marshal v = Inr e"
    and rest: "marshal_fields (f # fs) = Inr rest"
    and js: "js = appendString name @ '':'' @ e @ '','' @ rest"
    by (auto split: sum.splits)
  from "11.IH"(1) [OF e] have "json_member (appendString name @ '':'' @ e)"
    by (rule field_member)
  moreover from "11.IH"(2) [OF e rest] have "json_members rest" by simp
  ultimately have "json_members ((appendString name @ '':'' @ e) @ '','' @ rest)"
    by (rule members_more)
  then show ?case unfolding js by simp
qed

lemma Marshal_text: "json_Marshal v = Inr js \<Longrightarrow> json_text js"
  unfolding json_text_def by (rule value_element) (rule Marshal_well_formed(1))

subsection \<open>The output records always encode\<close>

lemma Marshal_Currency_value:
  "\<exists>js. json_Marshal (Currency_value c) = Inr js"
  by (simp add: Currency_value_def)

lemma marshal_elems_Currency_value:
  "\<exists>js. marshal_elems (map Currency_value cs) = Inr js"
proof (induction cs rule: induct_list012)
  case 1
  show ?case by simp
next
  case (2 c)
  show ?case using Marshal_Currency_value [of c] by simp
next
  case (3 c c' cs)
  from Marshal_Currency_value [of c] obtain js where "json_Marshal (Currency_value c) = Inr js" ..
  moreover from "3.IH"(2) obtain rest
    where "marshal_elems (map Currency_value (c' # cs)) = Inr rest" ..
  ultimately show ?case by simp
qed

lemma Marshal_CurrencyData_value:
  "\<exists>js. json_Marshal (CurrencyData_value d) = Inr js"
proof (cases "Currencies d")
  case None
  then show ?thesis by (simp add: CurrencyData_value_def)
next
  case (Some cs)
  from marshal_elems_Currency_value [of cs] obtain js
    where "marshal_elems (map Currency_value cs) = Inr js" ..
  with Some show ?thesis by (simp add: CurrencyData_value_def)
qed

section \<open>The handler for one symbol\<close>

lemma CurrencyHandler_success:
  assumes "Values_Get (Query (URL r)) ''symbol'' = S" and "S \<noteq> []"
    and "Markets markets S = Some t"
  shows "\<exists>js. json_Marshal (Currency_value
            \<lparr>ID = S, FullName = S, Ask = ticker_Ask t, Bid = ticker_Bid t,
             Last = ticker_Last t, Open = ticker_Open t, Low = ticker_Low t,
             High = ticker_High t, FeeCurrency = ''BTC'', Volume = [], QuoteVolume = [],
             Change = [], PercentChage = []\<rparr>) = Inr js
         \<and> CurrencyHandler markets new_ResponseWriter r =
             \<lparr>Header = [''Content-Type'' \<mapsto> [''application/json'']],
              StatusCode = Some 200, Body = js\<rparr>"
proof -
  let ?c = "\<lparr>ID = S, FullName = S, Ask = ticker_Ask t, Bid = ticker_Bid t,
             Last = ticker_Last t, Open = ticker_Open t, Low = ticker_Low t,
             High = ticker_High t, FeeCurrency = ''BTC'', Volume = [], QuoteVolume = [],
             Change = [], PercentChage = []\<rparr>"
  obtain js where js: "json_Marshal (Currency_value ?c) = Inr js"
    using Marshal_Currency_value by blast
  from assms have "CurrencyHandler_validate markets new_ResponseWriter r = Inr S"
    by (simp add: CurrencyHandler_validate_def)
  moreover have "CurrencyHandler_respond markets new_ResponseWriter S =
      \<lparr>Header = [''Content-Type'' \<mapsto> [''application/json'']],
       StatusCode = Some 200, Body = js\<rparr>"
    using assms(3) js
    by (simp add: CurrencyHandler_respond_def index_def json_reply_new)
  ultimately show ?thesis using js by (simp add: CurrencyHandler_def)
qed

text \<open>
  C1, as the code has it. For every symbol \<open>S\<close> that is not empty and is a key of the
  markets, \<open>CurrencyHandler\<close> with the query parameter \<open>symbol\<close> equal to \<open>S\<close> replies
  with status 200 and the JSON encoding of one record: \<open>ID\<close> and \<open>FullName\<close> are \<open>S\<close>,
  the six price fields are those of the ticker of \<open>S\<close>, unchanged, \<open>FeeCurrency\<close> is
  \<open>BTC\<close>, and the four other fields are empty strings.
\<close>

theorem CurrencyHandler_known_symbol:
  assumes "Values_Get (Query (URL r)) ''symbol'' = S" and "S \<noteq> []"
    and "Markets markets S = Some t"
  shows "\<exists>js. json_Marshal (Currency_value
            \<lparr>ID = S, FullName = S, Ask = ticker_Ask t, Bid = ticker_Bid t,
             Last = ticker_Last t, Open = ticker_Open t, Low = ticker_Low t,
             High = ticker_High t, FeeCurrency = ''BTC'', Volume = [], QuoteVolume = [],
             Change = [], PercentChage = []\<rparr>) = Inr js
         \<and> CurrencyHandler markets new_ResponseWriter r =
             \<lparr>Header = [''Content-Type'' \<mapsto> [''application/json'']],
              StatusCode = Some 200, Body = js\<rparr>"
  using assms by (rule CurrencyHandler_success)

text \<open>The example of the specification: the reply for \<open>BTCUSD\<close>, byte for byte.\<close>

theorem CurrencyHandler_known_symbol_witness:
  \<open>Values_Get (Query (URL \<lparr>Method = ''GET'',
        URL = \<lparr>Path = ''/currency/BTCUSD'', Query = [''symbol'' \<mapsto> [''BTCUSD'']]\<rparr>\<rparr>)) ''symbol''
     = ''BTCUSD''
   \<and> ''BTCUSD'' \<noteq> []
   \<and> Markets \<lparr>Markets = [''BTCUSD'' \<mapsto> \<lparr>ticker_Ask = ''10'', ticker_Bid = ''9'',
        ticker_Last = ''9.5'', ticker_Open = ''9'', ticker_Low = ''8'', ticker_High = ''11'',
        ticker_Volume = ''100''\<rparr>]\<rparr> ''BTCUSD''
     = Some \<lparr>ticker_Ask = ''10'', ticker_Bid = ''9'',
        ticker_Last = ''9.5'', ticker_Open = ''9'', ticker_Low = ''8'', ticker_High = ''11'',
        ticker_Volume = ''100''\<rparr>
   \<and> CurrencyHandler
        \<lparr>Markets = [''BTCUSD'' \<mapsto> \<lparr>ticker_Ask = ''10'', ticker_Bid = ''9'',
           ticker_Last = ''9.5'', ticker_Open = ''9'', ticker_Low = ''8'', ticker_High = ''11'',
           ticker_Volume = ''100''\<rparr>]\<rparr>
        new_ResponseWriter
        \<lparr>Method = ''GET'',
         URL = \<lparr>Path = ''/currency/BTCUSD'', Query = [''symbol'' \<mapsto> [''BTCUSD'']]\<rparr>\<rparr>
     = \<lparr>Header = [''Content-Type'' \<mapsto> [''application/json'']], StatusCode = Some 200,
        Body = ''{"id":"BTCUSD","fullName":"BTCUSD","ask":"10","bid":"9","last":"9.5","open":"9","low":"8","high":"11","feeCurrency":"BTC","volume":"","quoteVolume":"","change":"","percentChange":""}''\<rparr>\<close>
proof -
  let ?t = "\<lparr>ticker_Ask = ''10'', ticker_Bid = ''9'',
        ticker_Last = ''9.5'', ticker_Open = ''9'', ticker_Low = ''8'', ticker_High = ''11'',
        ticker_Volume = ''100''\<rparr>"
  let ?r = "\<lparr>Method = ''GET'',
         URL = \<lparr>Path = ''/currency/BTCUSD'', Query = [''symbol'' \<mapsto> [''BTCUSD'']]\<rparr>\<rparr>"
  let ?m = "\<lparr>Markets = [''BTCUSD'' \<mapsto> ?t]\<rparr>"
  have h1: "Values_Get (Query (URL ?r)) ''symbol'' = ''BTCUSD''"
    by (simp add: Values_Get_def)
  have h2: "''BTCUSD'' \<noteq> []" by simp
  have h3: "Markets ?m ''BTCUSD'' = Some ?t" by simp
  show ?thesis
    using CurrencyHandler_known_symbol [OF h1 h2 h3] h1
    by (simp add: Currency_value_def appendString_def quote_def byte_def htmlSafeSet_def)
qed

text \<open>
  The empty string can be a key of the markets (a JSON object may have the member name
  \<open>""\<close>), and for it the handler replies 400: the check for an empty parameter comes
  first.
\<close>

theorem CurrencyHandler_empty_key_counterexample:
  "Markets \<lparr>Markets = [[] \<mapsto> zero_MarketTicker]\<rparr> [] = Some zero_MarketTicker
   \<and> Values_Get (Query (URL \<lparr>Method = ''GET'',
         URL = \<lparr>Path = ''/currency/'', Query = [''symbol'' \<mapsto> [[]]]\<rparr>\<rparr>)) ''symbol'' = []
   \<and> CurrencyHandler \<lparr>Markets = [[] \<mapsto> zero_MarketTicker]\<rparr> new_ResponseWriter
        \<lparr>Method = ''GET'', URL = \<lparr>Path = ''/currency/'', Query = [''symbol'' \<mapsto> [[]]]\<rparr>\<rparr>
     = \<lparr>Header = [''Content-Type'' \<mapsto> [''text/plain; charset=utf-8''],
                   ''X-Content-Type-Options'' \<mapsto> [''nosniff'']],
        StatusCode = Some 400, Body = ''No symbol specified'' @ [CHR 0x0A]\<rparr>"
  by (simp add: CurrencyHandler_def CurrencyHandler_validate_def Values_Get_def
      http_Error_new StatusBadRequest_def)

text \<open>
  C2. When the parameter \<open>symbol\<close> is absent or empty, the reply of \<open>CurrencyHandler\<close>
  is status 400 with the plain text \<open>No symbol specified\<close>; when it is not empty and not
  a key of the markets, the reply is status 400 with the plain text
  \<open>Invalid symbol specified\<close>. The handler is a total function, and in both cases the
  reply is the error reply alone.
\<close>

theorem CurrencyHandler_bad_request:
  "(Query (URL r) ''symbol'' = None \<or> Values_Get (Query (URL r)) ''symbol'' = [] \<longrightarrow>
      CurrencyHandler markets new_ResponseWriter r =
        \<lparr>Header = [''Content-Type'' \<mapsto> [''text/plain; charset=utf-8''],
                    ''X-Content-Type-Options'' \<mapsto> [''nosniff'']],
         StatusCode = Some 400, Body = ''No symbol specified'' @ [CHR 0x0A]\<rparr>)
   \<and> (Values_Get (Query (URL r)) ''symbol'' \<noteq> []
        \<and> Values_Get (Query (URL r)) ''symbol'' \<notin> dom (Markets markets) \<longrightarrow>
      CurrencyHandler markets new_ResponseWriter r =
        \<lparr>Header = [''Content-Type'' \<mapsto> [''text/plain; charset=utf-8''],
                    ''X-Content-Type-Options'' \<mapsto> [''nosniff'']],
         StatusCode = Some 400, Body = ''Invalid symbol specified'' @ [CHR 0x0A]\<rparr>)"
  by (auto simp: CurrencyHandler_def CurrencyHandler_validate_def http_Error_new
      StatusBadRequest_def Values_Get_def Let_def)

theorem CurrencyHandler_bad_request_witness:
  "Values_Get (Query (URL \<lparr>Method = ''GET'',
        URL = \<lparr>Path = ''/currency/ETHBTC'', Query = [''symbol'' \<mapsto> [''ETHBTC'']]\<rparr>\<rparr>)) ''symbol''
     \<noteq> []
   \<and> Values_Get (Query (URL \<lparr>Method = ''GET'',
        URL = \<lparr>Path = ''/currency/ETHBTC'', Query = [''symbol'' \<mapsto> [''ETHBTC'']]\<rparr>\<rparr>)) ''symbol''
     \<notin> dom (Markets \<lparr>Markets = [''BTCUSD'' \<mapsto> zero_MarketTicker]\<rparr>)
   \<and> Query (URL \<lparr>Method = ''GET'', URL = \<lparr>Path = ''/currency/'', Query = Map.empty\<rparr>\<rparr>)
        ''symbol'' = None
   \<and> StatusCode (CurrencyHandler \<lparr>Markets = [''BTCUSD'' \<mapsto> zero_MarketTicker]\<rparr>
        new_ResponseWriter
        \<lparr>Method = ''GET'',
         URL = \<lparr>Path = ''/currency/ETHBTC'', Query = [''symbol'' \<mapsto> [''ETHBTC'']]\<rparr>\<rparr>)
     = Some 400
   \<and> StatusCode (CurrencyHandler \<lparr>Markets = [''BTCUSD'' \<mapsto> zero_MarketTicker]\<rparr>
        new_ResponseWriter
        \<lparr>Method = ''GET'', URL = \<lparr>Path = ''/currency/'', Query = Map.empty\<rparr>\<rparr>)
     = Some 400"
  using CurrencyHandler_bad_request
      [of "\<lparr>Method = ''GET'',
         URL = \<lparr>Path = ''/currency/ETHBTC'', Query = [''symbol'' \<mapsto> [''ETHBTC'']]\<rparr>\<rparr>"
        "\<lparr>Markets = [''BTCUSD'' \<mapsto> zero_MarketTicker]\<rparr>"]
    CurrencyHandler_bad_request
      [of "\<lparr>Method = ''GET'', URL = \<lparr>Path = ''/currency/'', Query = Map.empty\<rparr>\<rparr>"
        "\<lparr>Markets = [''BTCUSD'' \<mapsto> zero_MarketTicker]\<rparr>"]
  by (simp add: Values_Get_def)

section \<open>The handler for all symbols\<close>

lemma range_loop_map:
  assumes "set order \<subseteq> dom m"
  shows "range_loop m order acc =
     (if order = [] then acc
      else Some ((case acc of None \<Rightarrow> [] | Some xs \<Rightarrow> xs) @
        map (\<lambda>symbol. \<lparr>ID = symbol, FullName = symbol,
              Ask = ticker_Ask (index m symbol), Bid = ticker_Bid (index m symbol),
              Last = ticker_Last (index m symbol), Open = ticker_Open (index m symbol),
              Low = ticker_Low (index m symbol), High = ticker_High (index m symbol),
              FeeCurrency = ''BTC'', Volume = [], QuoteVolume = [], Change = [],
              PercentChage = []\<rparr>) order))"
  using assms
proof (induction order arbitrary: acc)
  case Nil
  show ?case by simp
next
  case (Cons symbol rest)
  then obtain t where t: "m symbol = Some t" and rest: "set rest \<subseteq> dom m" by auto
  show ?case
    using t Cons.IH [OF rest]
    by (cases acc) (simp_all add: append_slice_def index_def)
qed

text \<open>
  C3, as the code has it. For any order in which \<^verbatim>\<open>range\<close> visits the keys,
  \<open>CurrenciesHandler\<close> replies with status 200 and the JSON encoding of a list of
  records that has one record for each key of the markets and no other: as many records
  as keys, their \<open>ID\<close>s distinct and exactly the keys. In the record of a key, \<open>ID\<close>
  and \<open>FullName\<close> are the key, the six price fields are those of its ticker,
  \<open>FeeCurrency\<close> is \<open>BTC\<close> and the other four fields are empty. For every key that is
  not the empty string it is the record that \<open>CurrencyHandler\<close> encodes when asked for
  that key.
\<close>

theorem CurrenciesHandler_one_record_per_key:
  assumes "range_order (Markets markets) order"
  shows "\<exists>currencies js.
      length currencies = card (dom (Markets markets))
    \<and> map ID currencies = order
    \<and> distinct (map ID currencies)
    \<and> ID ` set currencies = dom (Markets markets)
    \<and> (\<forall>c \<in> set currencies. \<exists>t. Markets markets (ID c) = Some t
          \<and> c = \<lparr>ID = ID c, FullName = ID c, Ask = ticker_Ask t, Bid = ticker_Bid t,
                 Last = ticker_Last t, Open = ticker_Open t, Low = ticker_Low t,
                 High = ticker_High t, FeeCurrency = ''BTC'', Volume = [], QuoteVolume = [],
                 Change = [], PercentChage = []\<rparr>)
    \<and> json_Marshal (CurrencyData_value
          \<lparr>Currencies = (if currencies = [] then None else Some currencies)\<rparr>) = Inr js
    \<and> CurrenciesHandler markets order new_ResponseWriter r =
          \<lparr>Header = [''Content-Type'' \<mapsto> [''application/json'']],
           StatusCode = Some 200, Body = js\<rparr>
    \<and> (\<forall>c \<in> set currencies. \<forall>r'.
          ID c \<noteq> [] \<and> Values_Get (Query (URL r')) ''symbol'' = ID c \<longrightarrow>
          (\<exists>js'. json_Marshal (Currency_value c) = Inr js'
             \<and> CurrencyHandler markets new_ResponseWriter r' =
                 \<lparr>Header = [''Content-Type'' \<mapsto> [''application/json'']],
                  StatusCode = Some 200, Body = js'\<rparr>))"
proof -
  let ?m = "Markets markets"
  let ?proj = "\<lambda>symbol. \<lparr>ID = symbol, FullName = symbol,
              Ask = ticker_Ask (index ?m symbol), Bid = ticker_Bid (index ?m symbol),
              Last = ticker_Last (index ?m symbol), Open = ticker_Open (index ?m symbol),
              Low = ticker_Low (index ?m symbol), High = ticker_High (index ?m symbol),
              FeeCurrency = ''BTC'', Volume = [], QuoteVolume = [], Change = [],
              PercentChage = []\<rparr>"
  let ?cs = "map ?proj order"
  from assms have dist: "distinct order" and keys: "set order = dom ?m"
    by (simp_all add: range_order_def)
  have ids: "map ID ?cs = order" by (simp add: comp_def)
  have len: "length ?cs = card (dom ?m)"
    using distinct_card [OF dist] keys by simp
  have img: "ID ` set ?cs = dom ?m"
    using keys by (simp add: image_comp comp_def)
  have each: "\<exists>t. ?m (ID c) = Some t
          \<and> c = \<lparr>ID = ID c, FullName = ID c, Ask = ticker_Ask t, Bid = ticker_Bid t,
                 Last = ticker_Last t, Open = ticker_Open t, Low = ticker_Low t,
                 High = ticker_High t, FeeCurrency = ''BTC'', Volume = [], QuoteVolume = [],
                 Change = [], PercentChage = []\<rparr>" if "c \<in> set ?cs" for c
  proof -
    from that obtain symbol where symbol: "symbol \<in> set order" and c: "c = ?proj symbol"
      by auto
    from symbol keys obtain t where "?m symbol = Some t" by auto
    then show ?thesis unfolding c by (simp add: index_def)
  qed
  have loop: "range_loop ?m order None = (if ?cs = [] then None else Some ?cs)"
    using range_loop_map [of order ?m None] keys by simp
  from Marshal_CurrencyData_value
  obtain js where js: "json_Marshal (CurrencyData_value
      \<lparr>Currencies = (if ?cs = [] then None else Some ?cs)\<rparr>) = Inr js"
    by blast
  have reply: "CurrenciesHandler markets order new_ResponseWriter r =
      \<lparr>Header = [''Content-Type'' \<mapsto> [''application/json'']],
       StatusCode = Some 200, Body = js\<rparr>"
    using js unfolding CurrenciesHandler_def Let_def loop by (simp add: json_reply_new)
  have one: "\<exists>js'. json_Marshal (Currency_value c) = Inr js'
             \<and> CurrencyHandler markets new_ResponseWriter r' =
                 \<lparr>Header = [''Content-Type'' \<mapsto> [''application/json'']],
                  StatusCode = Some 200, Body = js'\<rparr>"
    if "c \<in> set ?cs" and "ID c \<noteq> []" and "Values_Get (Query (URL r')) ''symbol'' = ID c"
    for c r'
  proof -
    from each [OF that(1)] obtain t where t: "?m (ID c) = Some t"
      and c: "c = \<lparr>ID = ID c, FullName = ID c, Ask = ticker_Ask t, Bid = ticker_Bid t,
                 Last = ticker_Last t, Open = ticker_Open t, Low = ticker_Low t,
                 High = ticker_High t, FeeCurrency = ''BTC'', Volume = [], QuoteVolume = [],
                 Change = [], PercentChage = []\<rparr>"
      by blast
    from CurrencyHandler_success [OF that(3) that(2) t] c show ?thesis by simp
  qed
  show ?thesis
    apply (intro exI [of _ ?cs] exI [of _ js] conjI)
    subgoal by (rule len)
    subgoal by (rule ids)
    subgoal unfolding ids by (rule dist)
    subgoal by (rule img)
    subgoal using each by blast
    subgoal by (rule js)
    subgoal by (rule reply)
    subgoal using one by blast
    done
qed

text \<open>
  Two symbols, visited in the order \<open>ETHBTC\<close>, \<open>BTCUSD\<close>: the body of the reply to
  \<open>GET /currency/all\<close>, and the reply of \<open>CurrencyHandler\<close> for \<open>ETHBTC\<close>, which is the
  first record of that body.
\<close>

theorem CurrenciesHandler_one_record_per_key_witness:
  \<open>range_order (Markets \<lparr>Markets = [''BTCUSD'' \<mapsto> \<lparr>ticker_Ask = ''10'', ticker_Bid = ''9'',
        ticker_Last = ''9.5'', ticker_Open = ''9'', ticker_Low = ''8'', ticker_High = ''11'',
        ticker_Volume = ''100''\<rparr>,
      ''ETHBTC'' \<mapsto> \<lparr>ticker_Ask = ''0.07'', ticker_Bid = ''0.06'',
        ticker_Last = ''0.065'', ticker_Open = ''0.06'', ticker_Low = ''0.05'',
        ticker_High = ''0.08'', ticker_Volume = ''7''\<rparr>]\<rparr>) [''ETHBTC'', ''BTCUSD'']
   \<and> CurrenciesHandler
        \<lparr>Markets = [''BTCUSD'' \<mapsto> \<lparr>ticker_Ask = ''10'', ticker_Bid = ''9'',
            ticker_Last = ''9.5'', ticker_Open = ''9'', ticker_Low = ''8'', ticker_High = ''11'',
            ticker_Volume = ''100''\<rparr>,
          ''ETHBTC'' \<mapsto> \<lparr>ticker_Ask = ''0.07'', ticker_Bid = ''0.06'',
            ticker_Last = ''0.065'', ticker_Open = ''0.06'', ticker_Low = ''0.05'',
            ticker_High = ''0.08'', ticker_Volume = ''7''\<rparr>]\<rparr>
        [''ETHBTC'', ''BTCUSD''] new_ResponseWriter
        \<lparr>Method = ''GET'', URL = \<lparr>Path = ''/currency/all'', Query = Map.empty\<rparr>\<rparr>
     = \<lparr>Header = [''Content-Type'' \<mapsto> [''application/json'']], StatusCode = Some 200,
        Body = ''{"currencies":[{"id":"ETHBTC","fullName":"ETHBTC","ask":"0.07","bid":"0.06","last":"0.065","open":"0.06","low":"0.05","high":"0.08","feeCurrency":"BTC","volume":"","quoteVolume":"","change":"","percentChange":""},{"id":"BTCUSD","fullName":"BTCUSD","ask":"10","bid":"9","last":"9.5","open":"9","low":"8","high":"11","feeCurrency":"BTC","volume":"","quoteVolume":"","change":"","percentChange":""}]}''\<rparr>
   \<and> CurrencyHandler
        \<lparr>Markets = [''BTCUSD'' \<mapsto> \<lparr>ticker_Ask = ''10'', ticker_Bid = ''9'',
            ticker_Last = ''9.5'', ticker_Open = ''9'', ticker_Low = ''8'', ticker_High = ''11'',
            ticker_Volume = ''100''\<rparr>,
          ''ETHBTC'' \<mapsto> \<lparr>ticker_Ask = ''0.07'', ticker_Bid = ''0.06'',
            ticker_Last = ''0.065'', ticker_Open = ''0.06'', ticker_Low = ''0.05'',
            ticker_High = ''0.08'', ticker_Volume = ''7''\<rparr>]\<rparr>
        new_ResponseWriter
        \<lparr>Method = ''GET'',
         URL = \<lparr>Path = ''/currency/ETHBTC'', Query = [''symbol'' \<mapsto> [''ETHBTC'']]\<rparr>\<rparr>
     = \<lparr>Header = [''Content-Type'' \<mapsto> [''application/json'']], StatusCode = Some 200,
        Body = ''{"id":"ETHBTC","fullName":"ETHBTC","ask":"0.07","bid":"0.06","last":"0.065","open":"0.06","low":"0.05","high":"0.08","feeCurrency":"BTC","volume":"","quoteVolume":"","change":"","percentChange":""}''\<rparr>\<close>
proof -
  let ?btc = "\<lparr>ticker_Ask = ''10'', ticker_Bid = ''9'',
        ticker_Last = ''9.5'', ticker_Open = ''9'', ticker_Low = ''8'', ticker_High = ''11'',
        ticker_Volume = ''100''\<rparr>"
  let ?eth = "\<lparr>ticker_Ask = ''0.07'', ticker_Bid = ''0.06'',
        ticker_Last = ''0.065'', ticker_Open = ''0.06'', ticker_Low = ''0.05'',
        ticker_High = ''0.08'', ticker_Volume = ''7''\<rparr>"
  let ?m = "\<lparr>Markets = [''BTCUSD'' \<mapsto> ?btc, ''ETHBTC'' \<mapsto> ?eth]\<rparr>"
  let ?all = "\<lparr>Method = ''GET'', URL = \<lparr>Path = ''/currency/all'', Query = Map.empty\<rparr>\<rparr>"
  let ?one = "\<lparr>Method = ''GET'',
         URL = \<lparr>Path = ''/currency/ETHBTC'', Query = [''symbol'' \<mapsto> [''ETHBTC'']]\<rparr>\<rparr>"
  have h: "range_order (Markets ?m) [''ETHBTC'', ''BTCUSD'']"
    by (auto simp: range_order_def)
  from CurrenciesHandler_one_record_per_key [OF h, of ?all]
  obtain currencies :: "Currency list" and js where
    ids: "map ID currencies = [''ETHBTC'', ''BTCUSD'']"
    and each: "\<forall>c \<in> set currencies. \<exists>t. Markets ?m (ID c) = Some t
          \<and> c = \<lparr>ID = ID c, FullName = ID c, Ask = ticker_Ask t, Bid = ticker_Bid t,
                 Last = ticker_Last t, Open = ticker_Open t, Low = ticker_Low t,
                 High = ticker_High t, FeeCurrency = ''BTC'', Volume = [], QuoteVolume = [],
                 Change = [], PercentChage = []\<rparr>"
    and js: "json_Marshal (CurrencyData_value
          \<lparr>Currencies = (if currencies = [] then None else Some currencies)\<rparr>) = Inr js"
    and reply: "CurrenciesHandler ?m [''ETHBTC'', ''BTCUSD''] new_ResponseWriter ?all =
          \<lparr>Header = [''Content-Type'' \<mapsto> [''application/json'']],
           StatusCode = Some 200, Body = js\<rparr>"
    and one: "\<forall>c \<in> set currencies. \<forall>r'.
          ID c \<noteq> [] \<and> Values_Get (Query (URL r')) ''symbol'' = ID c \<longrightarrow>
          (\<exists>js'. json_Marshal (Currency_value c) = Inr js'
             \<and> CurrencyHandler ?m new_ResponseWriter r' =
                 \<lparr>Header = [''Content-Type'' \<mapsto> [''application/json'']],
                  StatusCode = Some 200, Body = js'\<rparr>)"
    by (elim exE conjE) (rule that)
  from ids obtain c1 c2 where cs: "currencies = [c1, c2]"
    and id1: "ID c1 = ''ETHBTC''" and id2: "ID c2 = ''BTCUSD''"
    by (auto simp: map_eq_Cons_conv)
  from each cs id1 have c1: "c1 = \<lparr>ID = ''ETHBTC'', FullName = ''ETHBTC'', Ask = ''0.07'',
      Bid = ''0.06'', Last = ''0.065'', Open = ''0.06'', Low = ''0.05'', High = ''0.08'',
      FeeCurrency = ''BTC'', Volume = [], QuoteVolume = [], Change = [], PercentChage = []\<rparr>"
    by simp
  from each cs id2 have c2: "c2 = \<lparr>ID = ''BTCUSD'', FullName = ''BTCUSD'', Ask = ''10'',
      Bid = ''9'', Last = ''9.5'', Open = ''9'', Low = ''8'', High = ''11'',
      FeeCurrency = ''BTC'', Volume = [], QuoteVolume = [], Change = [], PercentChage = []\<rparr>"
    by simp
  have enc: "appendString s = quote # string_body s @ [quote]" for s
    by (simp add: appendString_def)
  have all: \<open>js = ''{"currencies":[{"id":"ETHBTC","fullName":"ETHBTC","ask":"0.07","bid":"0.06","last":"0.065","open":"0.06","low":"0.05","high":"0.08","feeCurrency":"BTC","volume":"","quoteVolume":"","change":"","percentChange":""},{"id":"BTCUSD","fullName":"BTCUSD","ask":"10","bid":"9","last":"9.5","open":"9","low":"8","high":"11","feeCurrency":"BTC","volume":"","quoteVolume":"","change":"","percentChange":""}]}''\<close>
    using js unfolding cs c1 c2
    by (simp add: CurrencyData_value_def Currency_value_def enc quote_def byte_def
        htmlSafeSet_def)
  have sym: "ID c1 \<noteq> [] \<and> Values_Get (Query (URL ?one)) ''symbol'' = ID c1"
    unfolding id1 by (simp add: Values_Get_def)
  from one cs sym obtain js' where js': "json_Marshal (Currency_value c1) = Inr js'"
    and single: "CurrencyHandler ?m new_ResponseWriter ?one =
        \<lparr>Header = [''Content-Type'' \<mapsto> [''application/json'']],
         StatusCode = Some 200, Body = js'\<rparr>"
    by (metis list.set_intros(1))
  have \<open>js' = ''{"id":"ETHBTC","fullName":"ETHBTC","ask":"0.07","bid":"0.06","last":"0.065","open":"0.06","low":"0.05","high":"0.08","feeCurrency":"BTC","volume":"","quoteVolume":"","change":"","percentChange":""}''\<close>
    using js' unfolding c1
    by (simp add: Currency_value_def enc quote_def byte_def htmlSafeSet_def)
  with single all reply h show ?thesis by simp
qed

text \<open>
  With the empty string as a key, \<open>CurrenciesHandler\<close> lists a record for it, and
  \<open>CurrencyHandler\<close> asked for that key replies 400 and produces no record.
\<close>

theorem CurrenciesHandler_empty_key_record_counterexample:
  \<open>range_order (Markets \<lparr>Markets = [[] \<mapsto> \<lparr>ticker_Ask = ''10'', ticker_Bid = ''9'',
        ticker_Last = ''9.5'', ticker_Open = ''9'', ticker_Low = ''8'', ticker_High = ''11'',
        ticker_Volume = ''100''\<rparr>]\<rparr>) [[]]
   \<and> CurrenciesHandler
        \<lparr>Markets = [[] \<mapsto> \<lparr>ticker_Ask = ''10'', ticker_Bid = ''9'',
           ticker_Last = ''9.5'', ticker_Open = ''9'', ticker_Low = ''8'', ticker_High = ''11'',
           ticker_Volume = ''100''\<rparr>]\<rparr>
        [[]] new_ResponseWriter
        \<lparr>Method = ''GET'', URL = \<lparr>Path = ''/currency/all'', Query = Map.empty\<rparr>\<rparr>
     = \<lparr>Header = [''Content-Type'' \<mapsto> [''application/json'']], StatusCode = Some 200,
        Body = ''{"currencies":[{"id":"","fullName":"","ask":"10","bid":"9","last":"9.5","open":"9","low":"8","high":"11","feeCurrency":"BTC","volume":"","quoteVolume":"","change":"","percentChange":""}]}''\<rparr>
   \<and> Values_Get (Query (URL \<lparr>Method = ''GET'',
         URL = \<lparr>Path = ''/currency/'', Query = [''symbol'' \<mapsto> [[]]]\<rparr>\<rparr>)) ''symbol'' = []
   \<and> CurrencyHandler
        \<lparr>Markets = [[] \<mapsto> \<lparr>ticker_Ask = ''10'', ticker_Bid = ''9'',
           ticker_Last = ''9.5'', ticker_Open = ''9'', ticker_Low = ''8'', ticker_High = ''11'',
           ticker_Volume = ''100''\<rparr>]\<rparr>
        new_ResponseWriter
        \<lparr>Method = ''GET'', URL = \<lparr>Path = ''/currency/'', Query = [''symbol'' \<mapsto> [[]]]\<rparr>\<rparr>
     = \<lparr>Header = [''Content-Type'' \<mapsto> [''text/plain; charset=utf-8''],
                   ''X-Content-Type-Options'' \<mapsto> [''nosniff'']],
        StatusCode = Some 400, Body = ''No symbol specified'' @ [CHR 0x0A]\<rparr>\<close>
  by (simp add: range_order_def CurrenciesHandler_def CurrencyData_value_def Currency_value_def
      append_slice_def json_reply_new appendString_def quote_def byte_def htmlSafeSet_def
      CurrencyHandler_def CurrencyHandler_validate_def Values_Get_def http_Error_new
      StatusBadRequest_def)

text \<open>
  C4. The markets are empty, the request is \<open>GET /currency/all\<close>: the reply has status
  200 and the body \<open>{"currencies":null}\<close>. The slice \<^verbatim>\<open>currencies\<close> is declared nil and
  the loop, which alone allocates it, does not run.
\<close>

theorem CurrenciesHandler_empty_markets:
  \<open>main_currency_handler \<lparr>Markets = Map.empty\<rparr> [] new_ResponseWriter
      \<lparr>Method = ''GET'', URL = \<lparr>Path = ''/currency/all'', Query = Map.empty\<rparr>\<rparr>
   = Some \<lparr>Header = [''Content-Type'' \<mapsto> [''application/json'']], StatusCode = Some 200,
        Body = ''{"currencies":null}''\<rparr>\<close>
  by (simp add: main_currency_handler_def CurrenciesHandler_def CurrencyData_value_def
      json_reply_new appendString_def quote_def byte_def htmlSafeSet_def)

section \<open>The route \<^verbatim>\<open>/currency/\<close>\<close>

text \<open>
  C5. The markets hold \<open>BTCUSD\<close>. The request \<open>GET /currency/BTCUSD\<close>, with no query
  string, is answered with status 400 and \<open>No symbol specified\<close>: the symbol taken from
  the path never reaches \<open>CurrencyHandler\<close>, which reads the query parameter of the
  request. The request \<open>GET /currency/ETHBTC?symbol=BTCUSD\<close> is answered with status 200,
  though \<open>ETHBTC\<close> is not a key.
\<close>

theorem path_symbol_not_passed:
  "Markets \<lparr>Markets = [''BTCUSD'' \<mapsto> zero_MarketTicker]\<rparr> ''BTCUSD'' = Some zero_MarketTicker
   \<and> main_currency_handler \<lparr>Markets = [''BTCUSD'' \<mapsto> zero_MarketTicker]\<rparr> [''BTCUSD'']
        new_ResponseWriter
        \<lparr>Method = ''GET'', URL = \<lparr>Path = ''/currency/BTCUSD'', Query = Map.empty\<rparr>\<rparr>
     = Some \<lparr>Header = [''Content-Type'' \<mapsto> [''text/plain; charset=utf-8''],
                   ''X-Content-Type-Options'' \<mapsto> [''nosniff'']],
        StatusCode = Some 400, Body = ''No symbol specified'' @ [CHR 0x0A]\<rparr>
   \<and> Markets \<lparr>Markets = [''BTCUSD'' \<mapsto> zero_MarketTicker]\<rparr> ''ETHBTC'' = None
   \<and> map_option StatusCode
        (main_currency_handler \<lparr>Markets = [''BTCUSD'' \<mapsto> zero_MarketTicker]\<rparr> [''BTCUSD'']
           new_ResponseWriter
           \<lparr>Method = ''GET'',
            URL = \<lparr>Path = ''/currency/ETHBTC'', Query = [''symbol'' \<mapsto> [''BTCUSD'']]\<rparr>\<rparr>)
     = Some (Some 200)"
  by (simp add: main_currency_handler_def CurrencyHandler_def CurrencyHandler_validate_def
      CurrencyHandler_respond_def Currency_value_def Values_Get_def http_Error_new
      json_reply_new StatusBadRequest_def Let_def)

section \<open>The fetcher and the refresher\<close>

text \<open>
  C8. The result of \<open>getMarkets\<close> does not depend on its \<open>symbols\<close> argument: with
  the same reply of the exchange, any two symbol lists give the same result.
\<close>

theorem getMarkets_ignores_symbols:
  "getMarkets json_Unmarshal symbols1 http_Get = getMarkets json_Unmarshal symbols2 http_Get"
  by (simp add: getMarkets_def)

text \<open>
  C6. A tick whose fetch fails leaves the shared markets as they were, so both handlers
  answer as before the tick; a tick whose fetch succeeds stores the fetched markets; and
  the markets change at a tick only when its fetch succeeded.
\<close>

theorem failed_refresh_keeps_markets:
  "(getMarkets json_Unmarshal symbols http_Get = Inl err \<longrightarrow>
      shared (updateMarkets_tick json_Unmarshal symbols http_Get st) = shared st
      \<and> CurrencyHandler (shared (updateMarkets_tick json_Unmarshal symbols http_Get st)) w r
          = CurrencyHandler (shared st) w r
      \<and> CurrenciesHandler (shared (updateMarkets_tick json_Unmarshal symbols http_Get st)) order w r
          = CurrenciesHandler (shared st) order w r)
   \<and> (getMarkets json_Unmarshal symbols http_Get = Inr newMarkets \<longrightarrow>
      shared (updateMarkets_tick json_Unmarshal symbols http_Get st) = newMarkets)
   \<and> (shared (updateMarkets_tick json_Unmarshal symbols http_Get st) \<noteq> shared st \<longrightarrow>
      (\<exists>newMarkets. getMarkets json_Unmarshal symbols http_Get = Inr newMarkets))"
  by (cases "getMarkets json_Unmarshal symbols http_Get")
     (simp_all add: updateMarkets_tick_def log_Println_def)

theorem failed_refresh_keeps_markets_witness:
  "getMarkets (\<lambda>body. Inl (SyntaxError ''unexpected end of JSON input'')) [''BTCUSD'']
      (Inl (NetworkError ''connection refused'')) = Inl (NetworkError ''connection refused'')
   \<and> shared (updateMarkets_tick (\<lambda>body. Inl (SyntaxError ''unexpected end of JSON input''))
        [''BTCUSD''] (Inl (NetworkError ''connection refused''))
        \<lparr>shared = \<lparr>Markets = [''BTCUSD'' \<mapsto> zero_MarketTicker]\<rparr>, log_lines = []\<rparr>)
      = \<lparr>Markets = [''BTCUSD'' \<mapsto> zero_MarketTicker]\<rparr>"
  using failed_refresh_keeps_markets [of "\<lambda>body. Inl (SyntaxError ''unexpected end of JSON input'')"
      "[''BTCUSD'']" "Inl (NetworkError ''connection refused'')" "NetworkError ''connection refused''"
      "\<lparr>shared = \<lparr>Markets = [''BTCUSD'' \<mapsto> zero_MarketTicker]\<rparr>, log_lines = []\<rparr>"]
  by (simp add: getMarkets_def)

text \<open>
  C7, as the code has it. \<open>getMarkets\<close> returns an error exactly when \<^verbatim>\<open>http.Get\<close>
  returns one, or reading the body fails, or the body does not decode; otherwise it
  returns the decoded mapping. The status code of the reply plays no part.
\<close>

theorem getMarkets_error_iff:
  "((\<exists>err. getMarkets json_Unmarshal symbols http_Get = Inl err) \<longleftrightarrow>
      (\<exists>err. http_Get = Inl err)
      \<or> (\<exists>resp err. http_Get = Inr resp \<and> Response_Body resp = Inl err)
      \<or> (\<exists>resp body err. http_Get = Inr resp \<and> Response_Body resp = Inr body
            \<and> json_Unmarshal body = Inl err))
   \<and> (\<forall>resp body marketTickers.
        http_Get = Inr resp \<and> Response_Body resp = Inr body
          \<and> json_Unmarshal body = Inr marketTickers
        \<longrightarrow> getMarkets json_Unmarshal symbols http_Get = Inr \<lparr>Markets = marketTickers\<rparr>)
   \<and> getMarkets json_Unmarshal symbols (Inr (resp\<lparr>Response_StatusCode := code\<rparr>))
        = getMarkets json_Unmarshal symbols (Inr resp)"
  by (auto simp: getMarkets_def split: sum.splits)

theorem getMarkets_error_iff_witness:
  \<open>Response_Body \<lparr>Response_StatusCode = 200, Response_Body = Inr ''{"BTCUSD":{}}''\<rparr>
     = Inr ''{"BTCUSD":{}}''
   \<and> (\<lambda>body. if body = ''{"BTCUSD":{}}'' then Inr [''BTCUSD'' \<mapsto> zero_MarketTicker]
                else Inl (SyntaxError ''invalid character'')) ''{"BTCUSD":{}}''
     = Inr [''BTCUSD'' \<mapsto> zero_MarketTicker]
   \<and> getMarkets (\<lambda>body. if body = ''{"BTCUSD":{}}'' then Inr [''BTCUSD'' \<mapsto> zero_MarketTicker]
                else Inl (SyntaxError ''invalid character''))
        [''BTCUSD'']
        (Inr \<lparr>Response_StatusCode = 200, Response_Body = Inr ''{"BTCUSD":{}}''\<rparr>)
     = Inr \<lparr>Markets = [''BTCUSD'' \<mapsto> zero_MarketTicker]\<rparr>\<close>
  using getMarkets_error_iff
    [of \<open>\<lambda>body. if body = ''{"BTCUSD":{}}'' then Inr [''BTCUSD'' \<mapsto> zero_MarketTicker]
                else Inl (SyntaxError ''invalid character'')\<close>
        "[''BTCUSD'']"
        \<open>Inr \<lparr>Response_StatusCode = 200, Response_Body = Inr ''{"BTCUSD":{}}''\<rparr>\<close>]
  by simp

text \<open>A reply with status 500 and the body \<open>{}\<close> is taken as the new, empty markets.\<close>

theorem getMarkets_status_counterexample:
  \<open>Response_StatusCode \<lparr>Response_StatusCode = 500, Response_Body = Inr ''{}''\<rparr> = 500
   \<and> getMarkets (\<lambda>body. if body = ''{}'' then Inr Map.empty
                             else Inl (SyntaxError ''invalid character''))
        [''BTCUSD''] (Inr \<lparr>Response_StatusCode = 500, Response_Body = Inr ''{}''\<rparr>)
     = Inr \<lparr>Markets = Map.empty\<rparr>\<close>
  by (simp add: getMarkets_def)

text \<open>
  C9. \<open>CurrencyHandler\<close> reads the shared \<^verbatim>\<open>markets\<close> twice (lines 64 and 70), and a
  refresh can fall between the two reads. The markets hold \<open>BTCUSD\<close> with its prices; a
  successful tick replaces them by markets that hold \<open>ETHBTC\<close> only; a request for
  \<open>BTCUSD\<close> has passed the checks when the tick stores the new markets. The reply has
  status 200 and a record for \<open>BTCUSD\<close> with empty prices: it is the reply neither for
  the old markets (the prices) nor for the new ones (status 400).
\<close>

theorem refresh_between_reads_mixed_reply:
  \<open>shared (updateMarkets_tick
        (\<lambda>body. if body = ''{"ETHBTC":{}}'' then Inr [''ETHBTC'' \<mapsto> zero_MarketTicker]
                else Inl (SyntaxError ''invalid character''))
        [''BTCUSD'']
        (Inr \<lparr>Response_StatusCode = 200, Response_Body = Inr ''{"ETHBTC":{}}''\<rparr>)
        \<lparr>shared = \<lparr>Markets = [''BTCUSD'' \<mapsto> \<lparr>ticker_Ask = ''10'', ticker_Bid = ''9'',
            ticker_Last = ''9.5'', ticker_Open = ''9'', ticker_Low = ''8'',
            ticker_High = ''11'', ticker_Volume = ''100''\<rparr>]\<rparr>,
         log_lines = []\<rparr>)
     = \<lparr>Markets = [''ETHBTC'' \<mapsto> zero_MarketTicker]\<rparr>
   \<and> CurrencyHandler_across_refresh
      \<lparr>Markets = [''BTCUSD'' \<mapsto> \<lparr>ticker_Ask = ''10'', ticker_Bid = ''9'',
          ticker_Last = ''9.5'', ticker_Open = ''9'', ticker_Low = ''8'', ticker_High = ''11'',
          ticker_Volume = ''100''\<rparr>]\<rparr>
      \<lparr>Markets = [''ETHBTC'' \<mapsto> zero_MarketTicker]\<rparr>
      new_ResponseWriter
      \<lparr>Method = ''GET'',
       URL = \<lparr>Path = ''/currency/BTCUSD'', Query = [''symbol'' \<mapsto> [''BTCUSD'']]\<rparr>\<rparr>
     = \<lparr>Header = [''Content-Type'' \<mapsto> [''application/json'']], StatusCode = Some 200,
        Body = ''{"id":"BTCUSD","fullName":"BTCUSD","ask":"","bid":"","last":"","open":"","low":"","high":"","feeCurrency":"BTC","volume":"","quoteVolume":"","change":"","percentChange":""}''\<rparr>
   \<and> CurrencyHandler
      \<lparr>Markets = [''BTCUSD'' \<mapsto> \<lparr>ticker_Ask = ''10'', ticker_Bid = ''9'',
          ticker_Last = ''9.5'', ticker_Open = ''9'', ticker_Low = ''8'', ticker_High = ''11'',
          ticker_Volume = ''100''\<rparr>]\<rparr>
      new_ResponseWriter
      \<lparr>Method = ''GET'',
       URL = \<lparr>Path = ''/currency/BTCUSD'', Query = [''symbol'' \<mapsto> [''BTCUSD'']]\<rparr>\<rparr>
     = \<lparr>Header = [''Content-Type'' \<mapsto> [''application/json'']], StatusCode = Some 200,
        Body = ''{"id":"BTCUSD","fullName":"BTCUSD","ask":"10","bid":"9","last":"9.5","open":"9","low":"8","high":"11","feeCurrency":"BTC","volume":"","quoteVolume":"","change":"","percentChange":""}''\<rparr>
   \<and> CurrencyHandler
      \<lparr>Markets = [''ETHBTC'' \<mapsto> zero_MarketTicker]\<rparr>
      new_ResponseWriter
      \<lparr>Method = ''GET'',
       URL = \<lparr>Path = ''/currency/BTCUSD'', Query = [''symbol'' \<mapsto> [''BTCUSD'']]\<rparr>\<rparr>
     = \<lparr>Header = [''Content-Type'' \<mapsto> [''text/plain; charset=utf-8''],
                   ''X-Content-Type-Options'' \<mapsto> [''nosniff'']],
        StatusCode = Some 400, Body = ''Invalid symbol specified'' @ [CHR 0x0A]\<rparr>\<close>
  by (simp add: updateMarkets_tick_def getMarkets_def log_Println_def
      CurrencyHandler_across_refresh_def CurrencyHandler_def
      CurrencyHandler_validate_def CurrencyHandler_respond_def Values_Get_def index_def
      zero_MarketTicker_def http_Error_new json_reply_new StatusBadRequest_def
      Currency_value_def appendString_def quote_def byte_def htmlSafeSet_def)

section \<open>No encoding failure\<close>

text \<open>
  C10. For all contents of the output records (any bytes in any field) the encoder
  returns no error and the text it returns is well-formed JSON. So the reply of
  \<open>CurrencyHandler\<close> has status 200 or 400, never 500, and its body is a JSON text
  whenever the status is not 400; the reply of \<open>CurrenciesHandler\<close> has status 200 and
  a JSON text as its body.
\<close>

theorem handlers_never_fail_to_encode:
  "(\<exists>js. json_Marshal (Currency_value c) = Inr js \<and> json_text js)
   \<and> (\<exists>js. json_Marshal (CurrencyData_value d) = Inr js \<and> json_text js)
   \<and> StatusCode (CurrencyHandler markets new_ResponseWriter r) \<in> {Some 200, Some 400}
   \<and> (StatusCode (CurrencyHandler markets new_ResponseWriter r) \<noteq> Some 400
        \<longrightarrow> json_text (Body (CurrencyHandler markets new_ResponseWriter r)))
   \<and> StatusCode (CurrenciesHandler markets order new_ResponseWriter r) = Some 200
   \<and> json_text (Body (CurrenciesHandler markets order new_ResponseWriter r))"
proof (intro conjI)
  show "\<exists>js. json_Marshal (Currency_value c) = Inr js \<and> json_text js"
    using Marshal_Currency_value [of c] Marshal_text by blast
  show "\<exists>js. json_Marshal (CurrencyData_value d) = Inr js \<and> json_text js"
    using Marshal_CurrencyData_value [of d] Marshal_text by blast
  have respond: "StatusCode (CurrencyHandler_respond markets new_ResponseWriter symbol) = Some 200
      \<and> json_text (Body (CurrencyHandler_respond markets new_ResponseWriter symbol))" for symbol
  proof -
    let ?c = "\<lparr>ID = symbol, FullName = symbol,
            Ask = ticker_Ask (index (Markets markets) symbol),
            Bid = ticker_Bid (index (Markets markets) symbol),
            Last = ticker_Last (index (Markets markets) symbol),
            Open = ticker_Open (index (Markets markets) symbol),
            Low = ticker_Low (index (Markets markets) symbol),
            High = ticker_High (index (Markets markets) symbol),
            FeeCurrency = ''BTC'', Volume = [], QuoteVolume = [], Change = [],
            PercentChage = []\<rparr>"
    from Marshal_Currency_value [of ?c] obtain js
      where js: "json_Marshal (Currency_value ?c) = Inr js" ..
    then have "CurrencyHandler_respond markets new_ResponseWriter symbol =
        \<lparr>Header = [''Content-Type'' \<mapsto> [''application/json'']],
         StatusCode = Some 200, Body = js\<rparr>"
      by (simp add: CurrencyHandler_respond_def Let_def json_reply_new)
    with Marshal_text [OF js] show ?thesis by simp
  qed
  show "StatusCode (CurrencyHandler markets new_ResponseWriter r) \<in> {Some 200, Some 400}"
    using respond
    by (auto simp: CurrencyHandler_def CurrencyHandler_validate_def Let_def
        StatusBadRequest_def)
  show "StatusCode (CurrencyHandler markets new_ResponseWriter r) \<noteq> Some 400
        \<longrightarrow> json_text (Body (CurrencyHandler markets new_ResponseWriter r))"
    using respond
    by (auto simp: CurrencyHandler_def CurrencyHandler_validate_def Let_def
        StatusBadRequest_def)
  let ?d = "\<lparr>Currencies = range_loop (Markets markets) order None\<rparr>"
  from Marshal_CurrencyData_value [of ?d] obtain js
    where js: "json_Marshal (CurrencyData_value ?d) = Inr js" ..
  then have all: "CurrenciesHandler markets order new_ResponseWriter r =
        \<lparr>Header = [''Content-Type'' \<mapsto> [''application/json'']],
         StatusCode = Some 200, Body = js\<rparr>"
    by (simp add: CurrenciesHandler_def Let_def json_reply_new)
  show "StatusCode (CurrenciesHandler markets order new_ResponseWriter r) = Some 200"
    using all by simp
  show "json_text (Body (CurrenciesHandler markets order new_ResponseWriter r))"
    using all Marshal_text [OF js] by simp
qed

theorem handlers_never_fail_to_encode_witness:
  "StatusCode (CurrencyHandler \<lparr>Markets = [''BTCUSD'' \<mapsto> zero_MarketTicker]\<rparr>
        new_ResponseWriter
        \<lparr>Method = ''GET'',
         URL = \<lparr>Path = ''/currency/BTCUSD'', Query = [''symbol'' \<mapsto> [''BTCUSD'']]\<rparr>\<rparr>)
     \<noteq> Some 400
   \<and> json_text (Body (CurrencyHandler \<lparr>Markets = [''BTCUSD'' \<mapsto> zero_MarketTicker]\<rparr>
        new_ResponseWriter
        \<lparr>Method = ''GET'',
         URL = \<lparr>Path = ''/currency/BTCUSD'', Query = [''symbol'' \<mapsto> [''BTCUSD'']]\<rparr>\<rparr>))"
proof -
  let ?m = "\<lparr>Markets = [''BTCUSD'' \<mapsto> zero_MarketTicker]\<rparr>"
  let ?r = "\<lparr>Method = ''GET'',
         URL = \<lparr>Path = ''/currency/BTCUSD'', Query = [''symbol'' \<mapsto> [''BTCUSD'']]\<rparr>\<rparr>"
  have h: "StatusCode (CurrencyHandler ?m new_ResponseWriter ?r) \<noteq> Some 400"
    by (simp add: CurrencyHandler_def CurrencyHandler_validate_def CurrencyHandler_respond_def
        Currency_value_def Values_Get_def json_reply_new Let_def)
  from handlers_never_fail_to_encode [of _ _ ?m ?r] h show ?thesis by blast
qed

end
